(* ===== verification/Py_Prelude.thy ===== *)
theory Py_Prelude
  imports Main "HOL-Library.Sublist"
begin

text \<open>
  The shared base of the development: the values, the exceptions and the string
  builtins of Python that the sources under \<^verbatim>\<open>src/\<close> call, each as an executable HOL
  function, with the lemmas the component theories build on.

  \<^item> \<open>py_error\<close> is the exception raised; a function that may raise returns
    \<open>py_error + 'a\<close> (\<open>Inl\<close> the exception, \<open>Inr\<close> the value returned).
  \<^item> \<open>pyval\<close> is the part of Python's \<^verbatim>\<open>Any\<close> the sources store in their dictionaries:
    \<^verbatim>\<open>None\<close>, integers and strings, taken up to Python's \<^verbatim>\<open>==\<close>. A boolean is the
    integer 1 or 0 (\<open>VBool\<close>), as it is for \<^verbatim>\<open>==\<close>, for \<^verbatim>\<open>hash\<close> and as an index, so
    that two values are one dictionary key exactly when they are equal in HOL. Floats
    and containers are left out.
  \<^item> \<open>str_of_nat\<close> is \<^verbatim>\<open>str(n)\<close> for \<open>n \<ge> 0\<close>; \<open>str_join\<close> is \<^verbatim>\<open>sep.join(xs)\<close>;
    \<open>str_repeat\<close> is \<^verbatim>\<open>s * n\<close>; \<open>str_find\<close> is \<^verbatim>\<open>s.find(sub, start)\<close> with CPython's
    treatment of a negative or too large start; \<open>str_slice\<close> is \<^verbatim>\<open>s[a:b]\<close>.
  \<^item> \<open>occurs_at\<close> is the specification the search is proved against.

  A \<open>string\<close> is a list of characters, so the list lemmas of \<open>Main\<close> and the prefix
  order of \<open>HOL-Library.Sublist\<close> apply to it.
\<close>

section \<open>Lemma collections\<close>

named_theorems py_defs \<open>definitions of the Python builtins, for unfolding\<close>
named_theorems graph_defs \<open>definitions of the constants of graph_utils.py\<close>
named_theorems py_eval \<open>conditional equations that evaluate a model on closed arguments\<close>

section \<open>Exceptions and values\<close>

datatype py_error = KeyError | IndexError | TypeError | Exception string

type_synonym 'a result = "py_error + 'a"

datatype pyval = VNone | VInt int | VStr string

definition VBool :: "bool \<Rightarrow> pyval" where
  "VBool b = VInt (if b then 1 else 0)"

text \<open>
  A dictionary that is only indexed is a map; one that is iterated is an association
  list in insertion order. \<open>dict_item d k\<close> is \<^verbatim>\<open>d[k]\<close>, which raises
  \<^verbatim>\<open>KeyError\<close> for a key that is not there.
\<close>

definition dict_item :: "('k \<rightharpoonup> 'v) \<Rightarrow> 'k \<Rightarrow> 'v result" where
  "dict_item d k = (case d k of None \<Rightarrow> Inl KeyError | Some v \<Rightarrow> Inr v)"

text \<open>
  \<open>list_item xs i\<close> is \<^verbatim>\<open>xs[i]\<close> for a list: an integer index counts from the end when
  it is negative, a boolean is the integer 0 or 1, an index out of range raises
  \<^verbatim>\<open>IndexError\<close> and any other value \<^verbatim>\<open>TypeError\<close>.
\<close>

definition index_of :: "pyval \<Rightarrow> int option" where
  "index_of v = (case v of VInt i \<Rightarrow> Some i | _ \<Rightarrow> None)"

definition list_item :: "'a list \<Rightarrow> pyval \<Rightarrow> 'a result" where
  "list_item xs v =
     (case index_of v of
        None \<Rightarrow> Inl TypeError
      | Some i \<Rightarrow>
          if - int (length xs) \<le> i \<and> i < int (length xs)
          then Inr (xs ! nat (if i < 0 then int (length xs) + i else i))
          else Inl IndexError)"

section \<open>Decimal numerals: str(n)\<close>

definition digit_char :: "nat \<Rightarrow> char" where
  "digit_char d = ''0123456789'' ! d"

fun str_of_nat :: "nat \<Rightarrow> string" where
  "str_of_nat n =
     (if n < 10 then [digit_char n] else str_of_nat (n div 10) @ [digit_char (n mod 10)])"

declare str_of_nat.simps [simp del]

definition digit_val :: "char \<Rightarrow> nat" where
  "digit_val c = of_char c - 48"

definition nat_of_str :: "string \<Rightarrow> nat" where
  "nat_of_str s = foldl (\<lambda>a c. 10 * a + digit_val c) 0 s"

section \<open>join, repeat\<close>

fun str_join :: "'a list \<Rightarrow> 'a list list \<Rightarrow> 'a list" where
  "str_join sep [] = []"
| "str_join sep [x] = x"
| "str_join sep (x # y # ys) = x @ sep @ str_join sep (y # ys)"

definition str_repeat :: "'a list \<Rightarrow> int \<Rightarrow> 'a list" where
  "str_repeat s n = concat (replicate (nat n) s)"

section \<open>find and slices\<close>

definition occurs_at :: "'a list \<Rightarrow> 'a list \<Rightarrow> nat \<Rightarrow> bool" where
  "occurs_at sub s i \<longleftrightarrow> i \<le> length s \<and> prefix sub (drop i s)"

fun find_from :: "'a list \<Rightarrow> 'a list \<Rightarrow> nat \<Rightarrow> int" where
  "find_from sub [] i = (if sub = [] then int i else - 1)"
| "find_from sub (x # xs) i =
     (if prefix sub (x # xs) then int i else find_from sub xs (Suc i))"

definition start_index :: "nat \<Rightarrow> int \<Rightarrow> nat" where
  "start_index n i = (if i < 0 then nat (max 0 (int n + i)) else nat i)"

definition str_find :: "'a list \<Rightarrow> 'a list \<Rightarrow> int \<Rightarrow> int" where
  "str_find s sub start =
     (let st = start_index (length s) start
      in if length s < st then - 1 else find_from sub (drop st s) st)"

definition clip_index :: "nat \<Rightarrow> int \<Rightarrow> nat" where
  "clip_index n i = (if i < 0 then nat (max 0 (int n + i)) else min n (nat i))"

definition str_slice :: "'a list \<Rightarrow> int \<Rightarrow> int \<Rightarrow> 'a list" where
  "str_slice s a b =
     (let lo = clip_index (length s) a; hi = clip_index (length s) b
      in take (hi - lo) (drop lo s))"

section \<open>strip, split, lower, repr\<close>

text \<open>
  Characters are the 256 code points of \<open>char\<close>; \<open>is_space\<close>, \<open>char_lower\<close> and
  \<open>is_printable\<close> are \<^verbatim>\<open>str.isspace\<close>, \<^verbatim>\<open>str.lower\<close> and \<^verbatim>\<open>str.isprintable\<close> on that
  range. \<open>last_line s\<close> is \<^verbatim>\<open>s.split('\n')[-1]\<close>. \<open>str_repr s\<close> is \<^verbatim>\<open>repr(s)\<close>: the string
  between single quotes, or between double quotes when it holds a single quote and no
  double quote, with the backslash and the quote chosen escaped by a backslash, tab,
  newline and carriage return written \<^verbatim>\<open>\t\<close>, \<^verbatim>\<open>\n\<close>, \<^verbatim>\<open>\r\<close>, and every other character that
  is not printable written \<^verbatim>\<open>\xhh\<close>. \<open>list_repr r xs\<close> is the text Python formats a list
  as, given the text \<open>r x\<close> of each element; \<^verbatim>\<open>str\<close>, \<^verbatim>\<open>repr\<close> and \<^verbatim>\<open>format\<close> of a list of
  strings are \<open>list_repr str_repr\<close>.
\<close>

definition is_space :: "char \<Rightarrow> bool" where
  "is_space c \<longleftrightarrow>
     (let n = (of_char c :: nat)
      in (9 \<le> n \<and> n \<le> 13) \<or> (28 \<le> n \<and> n \<le> 32) \<or> n = 133 \<or> n = 160)"

definition str_strip :: "string \<Rightarrow> string" where
  "str_strip s = rev (dropWhile is_space (rev (dropWhile is_space s)))"

definition last_line :: "string \<Rightarrow> string" where
  "last_line s = rev (takeWhile (\<lambda>c. c \<noteq> CHR 0x0A) (rev s))"

definition char_lower :: "char \<Rightarrow> char" where
  "char_lower c =
     (let n = (of_char c :: nat)
      in if (65 \<le> n \<and> n \<le> 90) \<or> (192 \<le> n \<and> n \<le> 222 \<and> n \<noteq> 215) then char_of (n + 32) else c)"

definition str_lower :: "string \<Rightarrow> string" where
  "str_lower s = map char_lower s"

definition is_printable :: "char \<Rightarrow> bool" where
  "is_printable c \<longleftrightarrow>
     (let n = (of_char c :: nat)
      in 32 \<le> n \<and> n \<noteq> 127 \<and> \<not> (128 \<le> n \<and> n \<le> 160) \<and> n \<noteq> 173)"

definition hex_digit :: "nat \<Rightarrow> char" where
  "hex_digit n = (if n < 10 then char_of (48 + n) else char_of (87 + n))"

definition repr_char :: "char \<Rightarrow> char \<Rightarrow> string" where
  "repr_char quote c =
     (if c = quote \<or> c = CHR 0x5C then [CHR 0x5C, c]
      else if c = CHR 0x09 then [CHR 0x5C, CHR ''t'']
      else if c = CHR 0x0A then [CHR 0x5C, CHR ''n'']
      else if c = CHR 0x0D then [CHR 0x5C, CHR ''r'']
      else if is_printable c then [c]
      else [CHR 0x5C, CHR ''x'', hex_digit (of_char c div 16), hex_digit (of_char c mod 16)])"

definition str_repr :: "string \<Rightarrow> string" where
  "str_repr s =
     (let quote = (if CHR 0x27 \<in> set s \<and> CHR 0x22 \<notin> set s then CHR 0x22 else CHR 0x27)
      in [quote] @ concat (map (repr_char quote) s) @ [quote])"

definition list_repr :: "('a \<Rightarrow> string) \<Rightarrow> 'a list \<Rightarrow> string" where
  "list_repr r xs = ''['' @ str_join '', '' (map r xs) @ '']''"

lemmas repr_defs = str_repr_def Let_def repr_char_def is_printable_def hex_digit_def

lemmas [py_defs] = index_of_def list_item_def str_repeat_def str_find_def start_index_def clip_index_def str_slice_def

section \<open>Dictionary access\<close>

lemma dict_item_Inr [simp]: "dict_item d k = Inr v \<longleftrightarrow> d k = Some v"
  by (simp add: dict_item_def split: option.split)

lemma dict_item_Inl [simp]: "dict_item d k = Inl e \<longleftrightarrow> d k = None \<and> e = KeyError"
  by (auto simp: dict_item_def split: option.split)

lemma case_dict_item:
  "(case dict_item d k of Inl e \<Rightarrow> f e | Inr v \<Rightarrow> g v) =
     (case d k of None \<Rightarrow> f KeyError | Some v \<Rightarrow> g v)"
  by (simp add: dict_item_def split: option.split)

lemma dict_item_empty [simp]: "dict_item Map.empty k = Inl KeyError"
  by (simp add: dict_item_def)

lemma dict_item_upd [simp]:
  "dict_item (d(k \<mapsto> v)) k' = (if k' = k then Inr v else dict_item d k')"
  by (simp add: dict_item_def)

lemma dict_item_map_of_Cons [simp]:
  "dict_item (map_of ((k, v) # kvs)) k' = (if k' = k then Inr v else dict_item (map_of kvs) k')"
  by (simp add: dict_item_def)

lemma list_item_nat [simp]: "list_item xs (VInt (int k)) = (if k < length xs then Inr (xs ! k) else Inl IndexError)"
  by (simp add: list_item_def index_of_def)

section \<open>Numerals are read back\<close>

lemma digit_val_digit_char [simp]: "d < 10 \<Longrightarrow> digit_val (digit_char d) = d"
proof -
  assume "d < 10"
  then have "d \<in> {0, 1, 2, 3, 4, 5, 6, 7, 8, 9}" by auto
  then show ?thesis by (auto simp: digit_val_def digit_char_def)
qed

lemma nat_of_str_snoc [simp]: "nat_of_str (s @ [c]) = 10 * nat_of_str s + digit_val c"
  by (simp add: nat_of_str_def)

lemma nat_of_str_of_nat [simp]: "nat_of_str (str_of_nat n) = n"
proof (induction n rule: str_of_nat.induct)
  case (1 n)
  show ?case
  proof (cases "n < 10")
    case True
    then show ?thesis by (simp add: str_of_nat.simps [of n] nat_of_str_def)
  next
    case False
    with "1.IH" show ?thesis by (simp add: str_of_nat.simps [of n])
  qed
qed

lemma str_of_nat_inj [simp]: "str_of_nat m = str_of_nat n \<longleftrightarrow> m = n"
  by (metis nat_of_str_of_nat)

lemma inj_str_of_nat: "inj str_of_nat"
  by (simp add: inj_on_def)

lemma str_of_nat_nonempty [simp]: "str_of_nat n \<noteq> []"
  by (subst str_of_nat.simps) simp

lemma set_str_of_nat: "set (str_of_nat n) \<subseteq> set ''0123456789''"
proof (induction n rule: str_of_nat.induct)
  case (1 n)
  have digit: "digit_char d \<in> set ''0123456789''" if "d < 10" for d
    using that unfolding digit_char_def by (intro nth_mem) simp
  show ?case
  proof (cases "n < 10")
    case True
    with digit [of n] show ?thesis by (simp add: str_of_nat.simps [of n])
  next
    case False
    with "1.IH" digit [of "n mod 10"] show ?thesis by (simp add: str_of_nat.simps [of n])
  qed
qed

lemma str_of_nat_digit [py_eval]: "n < 10 \<Longrightarrow> str_of_nat n = [digit_char n]"
  by (simp add: str_of_nat.simps)

lemma str_of_nat_ge10 [py_eval]:
  "10 \<le> n \<Longrightarrow> str_of_nat n = str_of_nat (n div 10) @ [digit_char (n mod 10)]"
  by (simp add: str_of_nat.simps [of n])

declare digit_char_def [py_eval]

section \<open>join\<close>

lemma str_join_Cons:
  "str_join sep (x # xs) = (if xs = [] then x else x @ sep @ str_join sep xs)"
  by (cases xs) simp_all

lemma str_join_append:
  "xs \<noteq> [] \<Longrightarrow> ys \<noteq> [] \<Longrightarrow> str_join sep (xs @ ys) = str_join sep xs @ sep @ str_join sep ys"
  by (induction sep xs rule: str_join.induct) (simp_all add: str_join_Cons)

lemma length_str_join:
  "length (str_join sep xs) = sum_list (map length xs) + (length xs - 1) * length sep"
  by (induction sep xs rule: str_join.induct) simp_all

lemma set_str_join_subset: "set (str_join sep xs) \<subseteq> set sep \<union> \<Union> (set ` set xs)"
  by (induction sep xs rule: str_join.induct) auto

section \<open>repeat\<close>

lemma str_repeat_nonpos [simp]: "n \<le> 0 \<Longrightarrow> str_repeat s n = []"
  by (simp add: str_repeat_def)

lemma str_repeat_Nil [simp]: "str_repeat [] n = []"
  by (simp add: str_repeat_def)

lemma str_repeat_Suc: "0 \<le> n \<Longrightarrow> str_repeat s (n + 1) = s @ str_repeat s n"
  by (simp add: str_repeat_def nat_add_distrib)

lemma str_repeat_pos [py_eval]: "0 < n \<Longrightarrow> str_repeat s n = s @ str_repeat s (n - 1)"
  using str_repeat_Suc [of "n - 1" s] by simp

lemma length_str_repeat [simp]: "length (str_repeat s n) = nat n * length s"
  by (simp add: str_repeat_def length_concat sum_list_replicate)

lemma set_str_repeat_subset: "set (str_repeat s n) \<subseteq> set s"
  by (auto simp: str_repeat_def)

section \<open>The search finds the first occurrence\<close>

lemma find_from_first:
  "j \<le> length xs \<Longrightarrow> prefix sub (drop j xs) \<Longrightarrow> (\<forall>k<j. \<not> prefix sub (drop k xs))
     \<Longrightarrow> find_from sub xs i = int (i + j)"
proof (induction xs arbitrary: i j)
  case Nil
  then show ?case by simp
next
  case (Cons x xs)
  show ?case
  proof (cases j)
    case 0
    with Cons.prems show ?thesis by simp
  next
    case (Suc j')
    with Cons.prems have "\<not> prefix sub (x # xs)" by (metis drop0 zero_less_Suc)
    moreover from Cons.prems Suc have "find_from sub xs (Suc i) = int (Suc i + j')"
      by (intro Cons.IH) (auto dest: spec [of _ "Suc k" for k])
    ultimately show ?thesis using Suc by simp
  qed
qed

lemma find_from_found:
  "find_from sub xs i \<noteq> - 1 \<Longrightarrow>
     \<exists>j\<le>length xs. find_from sub xs i = int (i + j) \<and> prefix sub (drop j xs) \<and>
       (\<forall>k<j. \<not> prefix sub (drop k xs))"
proof (induction xs arbitrary: i)
  case Nil
  then show ?case by (simp split: if_splits)
next
  case (Cons x xs)
  show ?case
  proof (cases "prefix sub (x # xs)")
    case True
    then show ?thesis by (intro exI [of _ 0]) simp
  next
    case False
    with Cons.prems have "find_from sub xs (Suc i) \<noteq> - 1" by simp
    from Cons.IH [OF this] obtain j where "j \<le> length xs"
      "find_from sub xs (Suc i) = int (Suc i + j)" "prefix sub (drop j xs)"
      "\<forall>k<j. \<not> prefix sub (drop k xs)" by blast
    with False show ?thesis
      by (intro exI [of _ "Suc j"]) (auto simp: less_Suc_eq_0_disj)
  qed
qed

lemma find_from_none: "find_from sub xs i = - 1 \<longleftrightarrow> (\<forall>j\<le>length xs. \<not> prefix sub (drop j xs))"
proof
  assume none: "find_from sub xs i = - 1"
  show "\<forall>j\<le>length xs. \<not> prefix sub (drop j xs)"
  proof (intro allI impI notI)
    fix j assume "j \<le> length xs" "prefix sub (drop j xs)"
    then obtain m where "m \<le> length xs" "prefix sub (drop m xs)" "\<forall>k<m. \<not> prefix sub (drop k xs)"
      using exists_least_iff [of "\<lambda>j. j \<le> length xs \<and> prefix sub (drop j xs)"]
      by (metis le_trans less_imp_le_nat)
    then have "find_from sub xs i = int (i + m)" by (rule find_from_first)
    with none show False by simp
  qed
next
  assume "\<forall>j\<le>length xs. \<not> prefix sub (drop j xs)"
  then show "find_from sub xs i = - 1" using find_from_found [of sub xs i] by blast
qed


lemma start_index_nonneg [simp]: "start_index n (int k) = k"
  by (simp add: start_index_def)

lemma start_index_minus1 [simp]: "start_index n (- 1) = n - 1"
  by (simp add: start_index_def)

lemma clip_index_nonneg [simp]: "clip_index n (int k) = min n k"
  by (simp add: clip_index_def)

lemma clip_index_minus1 [simp]: "clip_index n (- 1) = n - 1"
  by (simp add: clip_index_def)

lemma occurs_at_bound: "occurs_at sub s i \<Longrightarrow> i + length sub \<le> length s"
  by (auto simp: occurs_at_def dest: prefix_length_le)

lemma occurs_at_take:
  "occurs_at sub s i \<longleftrightarrow> i + length sub \<le> length s \<and> take (length sub) (drop i s) = sub"
proof
  assume "occurs_at sub s i"
  then obtain zs where i: "i \<le> length s" and zs: "drop i s = sub @ zs"
    by (auto simp: occurs_at_def prefix_def)
  from zs have "length s - i = length sub + length zs"
    by (metis length_append length_drop)
  with i zs show "i + length sub \<le> length s \<and> take (length sub) (drop i s) = sub"
    by simp
next
  assume "i + length sub \<le> length s \<and> take (length sub) (drop i s) = sub"
  then show "occurs_at sub s i"
    by (metis add_leD1 occurs_at_def take_is_prefix)
qed

lemma occurs_at_append_left:
  "i + length sub \<le> length xs \<Longrightarrow> occurs_at sub (xs @ ys) i \<longleftrightarrow> occurs_at sub xs i"
  by (simp add: occurs_at_take)

lemma occurs_at_append_right [simp]:
  "occurs_at sub (xs @ ys) (length xs + j) \<longleftrightarrow> occurs_at sub ys j"
  by (simp add: occurs_at_def)

lemma occurs_at_here [simp]: "occurs_at sub (xs @ sub @ ys) (length xs)"
  by (simp add: occurs_at_def)

lemma str_find_first:
  assumes "st = start_index (length s) start" "st \<le> j" "occurs_at sub s j"
    and "\<forall>k. st \<le> k \<and> k < j \<longrightarrow> \<not> occurs_at sub s k"
  shows "str_find s sub start = int j"
proof -
  from assms(2,3) have "st \<le> length s" "j - st \<le> length (drop st s)"
    "prefix sub (drop (j - st) (drop st s))"
    by (auto simp: occurs_at_def)
  moreover from assms(2-4) have "\<forall>k<j - st. \<not> prefix sub (drop k (drop st s))"
    by (auto simp: occurs_at_def add.commute)
  ultimately have "find_from sub (drop st s) st = int (st + (j - st))"
    by (intro find_from_first)
  with assms(1,2) \<open>st \<le> length s\<close> show ?thesis by (simp add: str_find_def)
qed

lemma str_find_found:
  assumes "str_find s sub start \<noteq> - 1"
  shows "\<exists>j. str_find s sub start = int j \<and> start_index (length s) start \<le> j \<and> occurs_at sub s j \<and>
       (\<forall>k. start_index (length s) start \<le> k \<and> k < j \<longrightarrow> \<not> occurs_at sub s k)"
proof -
  let ?st = "start_index (length s) start"
  from assms have st: "?st \<le> length s" and "find_from sub (drop ?st s) ?st \<noteq> - 1"
    by (auto simp: str_find_def Let_def split: if_splits)
  from find_from_found [OF this(2)] obtain j where j: "j \<le> length s - ?st"
    "find_from sub (drop ?st s) ?st = int (?st + j)" "prefix sub (drop j (drop ?st s))"
    "\<forall>k<j. \<not> prefix sub (drop k (drop ?st s))" by auto
  have "\<not> occurs_at sub s k" if "?st \<le> k" "k < ?st + j" for k
    using j(4) [rule_format, of "k - ?st"] that by (simp add: occurs_at_def add.commute)
  with st j(1-3) show ?thesis
    by (intro exI [of _ "?st + j"]) (auto simp: str_find_def occurs_at_def add.commute)
qed

lemma str_find_none:
  "str_find s sub start = - 1 \<longleftrightarrow> (\<forall>j\<ge>start_index (length s) start. \<not> occurs_at sub s j)"
proof
  let ?st = "start_index (length s) start"
  assume none: "str_find s sub start = - 1"
  show "\<forall>j\<ge>?st. \<not> occurs_at sub s j"
  proof (intro allI impI notI)
    fix j assume j: "?st \<le> j" "occurs_at sub s j"
    then have "?st \<le> length s" by (simp add: occurs_at_def)
    with none have "find_from sub (drop ?st s) ?st = - 1"
      by (simp add: str_find_def Let_def)
    then have "\<forall>k\<le>length (drop ?st s). \<not> prefix sub (drop k (drop ?st s))"
      by (rule find_from_none [THEN iffD1])
    from this [rule_format, of "j - ?st"] j show False
      by (auto simp: occurs_at_def diff_le_mono)
  qed
next
  assume "\<forall>j\<ge>start_index (length s) start. \<not> occurs_at sub s j"
  then show "str_find s sub start = - 1" using str_find_found [of s sub start] by blast
qed

lemma str_slice_nonneg:
  "str_slice s (int a) (int b) = take (b - a) (drop a s)"
  by (auto simp: str_slice_def min_def)

section \<open>Occurrences in a text built from parts\<close>

lemma occurs_at_nth: "occurs_at sub s p \<Longrightarrow> i < length sub \<Longrightarrow> s ! (p + i) = sub ! i"
  by (auto simp: occurs_at_def prefix_def dest!: arg_cong [where f = "\<lambda>xs. xs ! i"] simp: nth_append)

lemma occurs_at_no_overlap:
  assumes a: "occurs_at a s p" and b: "occurs_at b s q" and "p \<le> q"
    and "b \<noteq> []" "hd b \<notin> set (tl a)" "\<not> prefix a b" "\<not> prefix b a"
  shows "p + length a \<le> q"
proof (rule ccontr)
  assume "\<not> p + length a \<le> q"
  with \<open>p \<le> q\<close> have lt: "q - p < length a" by arith
  show False
  proof (cases "q = p")
    case True
    with a b have "prefix a (drop p s)" "prefix b (drop p s)" by (simp_all add: occurs_at_def)
    then have "prefix a b \<or> prefix b a" by (rule prefix_same_cases)
    with assms(6,7) show False by simp
  next
    case False
    with \<open>p \<le> q\<close> have pos: "0 < q - p" by simp
    from occurs_at_nth [OF a lt] \<open>p \<le> q\<close> have "s ! q = a ! (q - p)" by simp
    moreover from occurs_at_nth [OF b, of 0] \<open>b \<noteq> []\<close> have "s ! q = hd b"
      by (simp add: hd_conv_nth)
    moreover from pos lt have "a ! (q - p) \<in> set (tl a)"
      by (cases a) (auto simp: nth_Cons')
    ultimately show False using assms(5) by simp
  qed
qed

lemma str_find_0_found:
  "str_find s sub 0 = int n \<Longrightarrow> occurs_at sub s n \<and> (\<forall>k<n. \<not> occurs_at sub s k)"
  using str_find_found [of s sub 0] by (auto simp: start_index_def)

lemma str_find_0_none: "str_find s sub 0 = - 1 \<Longrightarrow> \<not> occurs_at sub s k"
  using str_find_none [of s sub 0] by (simp add: start_index_def)

lemma str_find_block:
  assumes "str_find (pre @ sub) sub 0 = int (length pre)"
  shows "str_find (P @ pre @ sub @ R) sub (int (length P)) = int (length P + length pre)"
proof (rule str_find_first)
  show "length P = start_index (length (P @ pre @ sub @ R)) (int (length P))" by simp
  show "length P \<le> length P + length pre" by simp
  show "occurs_at sub (P @ pre @ sub @ R) (length P + length pre)"
    using occurs_at_append_right [of sub "P @ pre" "sub @ R" 0] by (simp add: occurs_at_def)
  show "\<forall>k. length P \<le> k \<and> k < length P + length pre \<longrightarrow> \<not> occurs_at sub (P @ pre @ sub @ R) k"
  proof (intro allI impI)
    fix k assume k: "length P \<le> k \<and> k < length P + length pre"
    then have "k - length P < length pre" by arith
    then have "\<not> occurs_at sub (pre @ sub) (k - length P)"
      using str_find_0_found [OF assms] by blast
    moreover from k have "occurs_at sub ((pre @ sub) @ R) (k - length P) \<longleftrightarrow>
        occurs_at sub (pre @ sub) (k - length P)"
      by (intro occurs_at_append_left) auto
    ultimately show "\<not> occurs_at sub (P @ pre @ sub @ R) k"
      using occurs_at_append_right [of sub P "pre @ sub @ R" "k - length P"] k by simp
  qed
qed


lemma str_find_skip:
  assumes "\<forall>k. a \<le> k \<and> k < b \<longrightarrow> \<not> occurs_at sub s k" and "a \<le> b"
  shows "str_find s sub (int a) = str_find s sub (int b)"
proof (cases "str_find s sub (int b) = - 1")
  case True
  then have "\<forall>j\<ge>b. \<not> occurs_at sub s j" by (simp add: str_find_none)
  with assms(1) have "\<forall>j\<ge>a. \<not> occurs_at sub s j" by (metis not_le)
  then have "str_find s sub (int a) = - 1" by (simp add: str_find_none)
  with True show ?thesis by simp
next
  case False
  from str_find_found [OF this] obtain j where j: "str_find s sub (int b) = int j" "b \<le> j"
    "occurs_at sub s j" "\<forall>k. b \<le> k \<and> k < j \<longrightarrow> \<not> occurs_at sub s k" by auto
  from j(4) assms(1) have "\<forall>k. a \<le> k \<and> k < j \<longrightarrow> \<not> occurs_at sub s k" by (metis not_le)
  with j(2,3) assms(2) have "str_find s sub (int a) = int j"
    by (intro str_find_first) simp_all
  with j(1) show ?thesis by simp
qed

lemma str_find_ge_start: "str_find s sub start \<noteq> - 1 \<Longrightarrow> start \<le> str_find s sub start"
  using str_find_found [of s sub start] by (auto simp: start_index_def split: if_splits)

lemma occurs_at_split: "occurs_at sub s j \<Longrightarrow> s = take j s @ sub @ drop (j + length sub) s"
proof -
  assume "occurs_at sub s j"
  then have "take (length sub) (drop j s) = sub" by (simp add: occurs_at_take)
  then have "drop j s = sub @ drop (length sub) (drop j s)"
    by (metis append_take_drop_id)
  then have "take j s @ drop j s = take j s @ sub @ drop (j + length sub) s"
    by (simp add: add.commute)
  then show ?thesis by simp
qed

lemma occurs_at_prefixI: "occurs_at sub xs k \<Longrightarrow> occurs_at sub (xs @ ys) k"
  using occurs_at_append_left [of k sub xs ys] occurs_at_bound [of sub xs k] by simp

lemma str_find_0_first:
  assumes "occurs_at sub s j" and "\<forall>k<j. \<not> occurs_at sub s k"
  shows "str_find s sub 0 = int j"
proof (rule str_find_first)
  show "0 = start_index (length s) 0" by (simp add: start_index_def)
  show "occurs_at sub s j" by fact
  show "\<forall>k. 0 \<le> k \<and> k < j \<longrightarrow> \<not> occurs_at sub s k" using assms(2) by simp
qed simp

lemma str_find_append:
  "str_find (P @ s) sub (int (length P + k)) =
     (if str_find s sub (int k) = - 1 then - 1 else int (length P) + str_find s sub (int k))"
proof (cases "str_find s sub (int k) = - 1")
  case True
  then have "\<forall>j\<ge>k. \<not> occurs_at sub s j" by (simp add: str_find_none)
  then have "\<not> occurs_at sub (P @ s) j" if "length P + k \<le> j" for j
    using occurs_at_append_right [of sub P s "j - length P"] that by simp
  then have "str_find (P @ s) sub (int (length P + k)) = - 1"
    by (simp add: str_find_none del: of_nat_add)
  with True show ?thesis by simp
next
  case False
  from str_find_found [OF this] obtain j where j: "str_find s sub (int k) = int j" "k \<le> j"
    "occurs_at sub s j" "\<forall>i. k \<le> i \<and> i < j \<longrightarrow> \<not> occurs_at sub s i" by auto
  have "\<not> occurs_at sub (P @ s) i" if "length P + k \<le> i" "i < length P + j" for i
  proof -
    from that have "k \<le> i - length P" "i - length P < j" by arith+
    with j(4) have "\<not> occurs_at sub s (i - length P)" by blast
    with occurs_at_append_right [of sub P s "i - length P"] that show ?thesis by simp
  qed
  then have none: "\<forall>i. length P + k \<le> i \<and> i < length P + j \<longrightarrow> \<not> occurs_at sub (P @ s) i"
    by blast
  have "str_find (P @ s) sub (int (length P + k)) = int (length P + j)"
  proof (rule str_find_first [OF _ _ _ none])
    show "length P + k = start_index (length (P @ s)) (int (length P + k))"
      by (simp del: of_nat_add)
    show "length P + k \<le> length P + j" using j(2) by simp
    show "occurs_at sub (P @ s) (length P + j)" using j(3) by simp
  qed
  with j(1) False show ?thesis by simp
qed

lemma str_find_cut:
  assumes "str_find h sub (int a) = int e"
  defines "mid \<equiv> take (e - a) (drop a h)"
  shows "h = take a h @ mid @ sub @ drop (e + length sub) h"
    and "str_find (mid @ sub) sub 0 = int (length mid)"
    and "a + length mid = e"
proof -
  from assms(1) str_find_found [of h sub "int a"]
  have at: "occurs_at sub h e" and "a \<le> e"
    and first: "\<forall>k. a \<le> k \<and> k < e \<longrightarrow> \<not> occurs_at sub h k" by auto
  from occurs_at_bound [OF at] \<open>a \<le> e\<close> show len: "a + length mid = e"
    by (simp add: mid_def)
  have "drop a h = mid @ drop e h"
    using \<open>a \<le> e\<close> unfolding mid_def
    by (metis add_diff_inverse_nat append_take_drop_id drop_drop not_less add.commute)
  moreover from occurs_at_split [OF at] have "drop e h = sub @ drop (e + length sub) h"
    by (metis append_eq_conv_conj occurs_at_bound [OF at] length_take min.absorb2 add_leD1)
  ultimately have "take a h @ drop a h = take a h @ mid @ sub @ drop (e + length sub) h"
    by simp
  then show whole: "h = take a h @ mid @ sub @ drop (e + length sub) h" by simp
  have "\<not> occurs_at sub (mid @ sub) k" if "k < length mid" for k
  proof
    assume "occurs_at sub (mid @ sub) k"
    then have "occurs_at sub ((mid @ sub) @ drop (e + length sub) h) k" by (rule occurs_at_prefixI)
    then have "occurs_at sub (take a h @ mid @ sub @ drop (e + length sub) h) (length (take a h) + k)"
      using occurs_at_append_right [of sub "take a h" "mid @ sub @ drop (e + length sub) h" k] by simp
    with whole len have "occurs_at sub h (a + k)"
      by (metis add_leD1 length_take min.absorb2 occurs_at_bound [OF at] le_add1 le_trans)
    with first that len show False by auto
  qed
  then show "str_find (mid @ sub) sub 0 = int (length mid)"
    using occurs_at_here [of sub mid "[]"] by (intro str_find_0_first) simp_all
qed

section \<open>strip and the last line\<close>

lemma str_strip_Nil [simp]: "str_strip [] = []"
  by (simp add: str_strip_def)

lemma last_line_no_newline: "CHR 0x0A \<notin> set (last_line s)"
  using set_takeWhileD [of "CHR 0x0A" "\<lambda>c. c \<noteq> CHR 0x0A" "rev s"] by (auto simp: last_line_def)

lemma last_line_id:
  assumes "CHR 0x0A \<notin> set s"
  shows "last_line s = s"
proof -
  from assms have "\<forall>c\<in>set (rev s). c \<noteq> CHR 0x0A" by auto
  then have "takeWhile (\<lambda>c. c \<noteq> CHR 0x0A) (rev s) = rev s"
    by (simp only: takeWhile_eq_all_conv)
  then show ?thesis by (simp only: last_line_def rev_rev_ident)
qed

section \<open>The builtins on examples\<close>

text \<open>
  The values CPython gives for the same calls: a negative start counts from the end,
  a start beyond the end finds nothing (not even the empty string), slice bounds are
  clipped, a boolean indexes a list as 0 or 1.
\<close>

lemma str_find_examples:
  "str_find ''abcabc'' ''bc'' 2 = 4"
  "str_find ''abcabc'' ''bc'' 5 = - 1"
  "str_find ''abc'' ''x'' 0 = - 1"
  "str_find ''abc'' [] 3 = 3"
  "str_find ''abc'' [] 4 = - 1"
  "str_find ''abcabc'' ''bc'' (- 2) = 4"
  "str_find ''abc'' ''a'' (- 1) = - 1"
  "str_find ''abc'' ''c'' (- 1) = 2"
  by (simp_all add: py_defs)

lemma str_slice_examples:
  "str_slice ''hello'' (- 1) (- 1) = []"
  "str_slice ''hello'' 1 (- 1) = ''ell''"
  "str_slice ''hello'' 3 1 = []"
  "str_slice ''hello'' 2 99 = ''llo''"
  "str_slice ''hello'' (- 99) 2 = ''he''"
  by (simp_all add: py_defs)

lemma str_join_examples:
  "str_join '', '' [] = []"
  "str_join '' '' [[], ''bar chart''] = '' bar chart''"
  "str_of_nat 120 = ''120''"
  by (simp_all add: py_eval)

lemma str_repeat_examples:
  "str_repeat ''ab'' 0 = []"
  "str_repeat ''ab'' (- 1) = []"
  "str_repeat ''ab'' 2 = ''abab''"
  by (simp_all add: py_eval)

lemma str_strip_examples:
  "str_strip ''  a b \<newline>'' = ''a b''"
  "last_line ''x\<newline>y\<newline>z'' = ''z''"
  "last_line ''x\<newline>'' = []"
  "str_lower ''Yes'' = ''yes''"
  by (simp_all add: str_strip_def last_line_def str_lower_def char_lower_def is_space_def
      char_of_def bit_iff_odd_drop_bit drop_bit_eq_div)

lemma list_item_examples:
  "list_item [''a'', ''b'', ''c''] (VInt (- 1)) = Inr ''c''"
  "list_item [''a'', ''b'', ''c''] (VBool True) = Inr ''b''"
  "dict_item [VInt 1 \<mapsto> ''b''] (VBool True) = Inr ''b''"
  "list_item [''a'', ''b'', ''c''] (VInt 3) = Inl IndexError"
  "list_item [''a'', ''b'', ''c''] (VStr ''0'') = Inl TypeError"
  "list_item [''a'', ''b'', ''c''] VNone = Inl TypeError"
  by (simp_all add: py_defs VBool_def dict_item_def)

lemma str_repr_examples:
  "str_repr ''lab-git'' = [CHR 0x27] @ ''lab-git'' @ [CHR 0x27]"
  "str_repr [] = [CHR 0x27, CHR 0x27]"
  "str_repr ''it's'' = [CHR 0x22] @ ''it's'' @ [CHR 0x22]"
  "str_repr (''a'' @ [CHR 0x22] @ ''b'c'') =
     [CHR 0x27] @ ''a'' @ [CHR 0x22] @ ''b'' @ [CHR 0x5C] @ '''c'' @ [CHR 0x27]"
  "str_repr [CHR ''x'', CHR 0x5C, CHR ''y''] = [CHR 0x27, CHR ''x'', CHR 0x5C, CHR 0x5C, CHR ''y'', CHR 0x27]"
  "str_repr [CHR 0x0A, CHR 0x09, CHR 0x0D] =
     [CHR 0x27, CHR 0x5C, CHR ''n'', CHR 0x5C, CHR ''t'', CHR 0x5C, CHR ''r'', CHR 0x27]"
  "str_repr [CHR 0x1F, CHR 0x7F, CHR 0xA0, CHR 0xAD, CHR 0xE9] =
     [CHR 0x27, CHR 0x5C] @ ''x1f'' @ [CHR 0x5C] @ ''x7f'' @ [CHR 0x5C] @ ''xa0'' @ [CHR 0x5C] @ ''xad'' @
     [CHR 0xE9, CHR 0x27]"
  "list_repr str_repr [''lab-git'', ''a b''] = ''['lab-git', 'a b']''"
  by (simp_all add: repr_defs list_repr_def
      char_of_def bit_iff_odd_drop_bit drop_bit_eq_div py_eval)

end
