(* ===== verification/Graph_Title.thy ===== *)
theory Graph_Title
  imports Py_Prelude
begin

text \<open>
  The title builder of \<^verbatim>\<open>graph_utils.py\<close>: the ten graph type constants, the table
  \<^verbatim>\<open>GRAPH_TITLE_LABELS\<close> and \<^verbatim>\<open>get_graph_title\<close>.

  The table is an association list in the order of the dictionary literal; a lookup
  \<^verbatim>\<open>GRAPH_TITLE_LABELS[graph_type]\<close> is \<open>dict_item\<close> on its map and raises \<^verbatim>\<open>KeyError\<close>
  for a type that is not a key. A column header may be a string, a number or a tuple
  and enters the title through \<^verbatim>\<open>str\<close>; the model takes that conversion as the
  parameter \<open>str_h\<close>, so every lemma holds for every header type.

  The source has no list of the graph types; \<open>graph_types\<close> is a list of the ten
  constants that the lemmas use to say what the keys of the table are.

  The lemmas give the title in closed form on both branches of the filter flag, say
  exactly when the lookup raises, and fix the table against the constants. The closed
  form holds for empty header lists too: the headers are then joined to the empty
  string, which stays a component, so the title starts with a space, although the
  comment at line 117 of the source speaks of the non empty components.
\<close>

section \<open>Graph types and their labels\<close>

definition SCATTER :: string where "SCATTER = ''scatter''"
definition LINE :: string where "LINE = ''line''"
definition BAR :: string where "BAR = ''bar''"
definition HISTOGRAM :: string where "HISTOGRAM = ''histogram''"
definition BOX :: string where "BOX = ''box''"
definition STRIP :: string where "STRIP = ''strip''"
definition VIOLIN :: string where "VIOLIN = ''violin''"
definition ECDF :: string where "ECDF = ''ecdf''"
definition DENSITY_HEATMAP :: string where "DENSITY_HEATMAP = ''density heatmap''"
definition DENSITY_CONTOUR :: string where "DENSITY_CONTOUR = ''density contour''"

lemmas graph_type_defs [graph_defs] =
  SCATTER_def LINE_def BAR_def HISTOGRAM_def BOX_def STRIP_def VIOLIN_def ECDF_def
  DENSITY_HEATMAP_def DENSITY_CONTOUR_def

definition GRAPH_TITLE_LABELS :: "(string \<times> string) list" where
  "GRAPH_TITLE_LABELS =
     [(SCATTER, ''scatter plot''),
      (LINE, ''line''),
      (BAR, ''bar chart''),
      (BOX, ''box plot''),
      (HISTOGRAM, ''histogram''),
      (STRIP, ''strip''),
      (VIOLIN, ''violin''),
      (ECDF, ''ecdf''),
      (DENSITY_HEATMAP, ''density heatmap''),
      (DENSITY_CONTOUR, ''density contour'')]"

declare GRAPH_TITLE_LABELS_def [graph_defs]

section \<open>The title\<close>

definition get_graph_title ::
  "('h \<Rightarrow> string) \<Rightarrow> 'h list \<Rightarrow> 'h list \<Rightarrow> bool \<Rightarrow> string \<Rightarrow> string result" where
  "get_graph_title str_h x_axis_column_headers y_axis_column_headers filtered graph_type =
     (let graph_filter_label = (if filtered then Some ''(first 1000 rows)'' else None);
          all_column_headers =
            str_join '', '' (map str_h (x_axis_column_headers @ y_axis_column_headers))
      in case dict_item (map_of GRAPH_TITLE_LABELS) graph_type of
           Inl e \<Rightarrow> Inl e
         | Inr graph_title_label \<Rightarrow>
             (let graph_title_components =
                    (case graph_filter_label of
                       Some label \<Rightarrow> [all_column_headers, label, graph_title_label]
                     | None \<Rightarrow> [all_column_headers, graph_title_label])
              in Inr (str_join '' '' graph_title_components)))"

section \<open>The table\<close>

definition graph_types :: "string list" where
  "graph_types =
     [SCATTER, LINE, BAR, HISTOGRAM, BOX, STRIP, VIOLIN, ECDF, DENSITY_HEATMAP, DENSITY_CONTOUR]"

lemma distinct_graph_types: "distinct graph_types"
  by (simp add: graph_types_def graph_defs)

lemma length_graph_types: "length graph_types = 10"
  by (simp add: graph_types_def)

lemma dom_GRAPH_TITLE_LABELS: "dom (map_of GRAPH_TITLE_LABELS) = set graph_types"
  by (simp add: dom_map_of_conv_image_fst GRAPH_TITLE_LABELS_def graph_types_def insert_commute)

lemma label_lookup_Inr:
  "graph_type \<in> set graph_types \<Longrightarrow> \<exists>l. dict_item (map_of GRAPH_TITLE_LABELS) graph_type = Inr l"
  using dom_GRAPH_TITLE_LABELS by (fastforce simp: dom_def)

lemma label_lookup_Inl:
  "graph_type \<notin> set graph_types \<Longrightarrow> dict_item (map_of GRAPH_TITLE_LABELS) graph_type = Inl KeyError"
  using dom_GRAPH_TITLE_LABELS by (fastforce simp: dom_def)

section \<open>Properties of the title\<close>

text \<open>
  C7. For a graph type of the table, \<^verbatim>\<open>get_graph_title\<close> returns the comma separated
  headers of the x axis followed by those of the y axis, then (only when the filter
  flag is set) the marker \<^verbatim>\<open>(first 1000 rows)\<close>, then the label of the type, separated
  by single spaces. With no header on either axis the joined headers are the empty
  string and the title starts with the space that follows them.
\<close>

theorem get_graph_title_value:
  assumes "map_of GRAPH_TITLE_LABELS graph_type = Some label"
  shows "get_graph_title str_h xs ys filtered graph_type =
     Inr (str_join '', '' (map str_h xs @ map str_h ys) @ '' '' @
          (if filtered then ''(first 1000 rows) '' else []) @ label)"
  using assms by (simp add: get_graph_title_def dict_item_def)

theorem get_graph_title_value_witness:
  "map_of GRAPH_TITLE_LABELS BAR = Some ''bar chart'' \<and>
   get_graph_title id [''Age''] [''Income''] True BAR = Inr ''Age, Income (first 1000 rows) bar chart'' \<and>
   get_graph_title id [''Age''] [''Income''] False BAR = Inr ''Age, Income bar chart'' \<and>
   get_graph_title id [] [] False BAR = Inr '' bar chart''"
proof -
  have l: "map_of GRAPH_TITLE_LABELS BAR = Some ''bar chart''"
    by (simp add: graph_defs)
  show ?thesis
    using get_graph_title_value [OF l, of id "[''Age'']" "[''Income'']" True]
      get_graph_title_value [OF l, of id "[''Age'']" "[''Income'']" False]
      get_graph_title_value [OF l, of id "[]" "[]" False] l
    by simp
qed

text \<open>
  C19. \<^verbatim>\<open>get_graph_title\<close> raises \<^verbatim>\<open>KeyError\<close> exactly for a graph type that is none of
  the ten constants, whatever the headers and the filter flag are; for each of the ten
  it returns a title.
\<close>

theorem get_graph_title_KeyError_iff:
  "get_graph_title str_h xs ys filtered graph_type = Inl e \<longleftrightarrow>
     e = KeyError \<and> graph_type \<notin> set graph_types"
proof (cases "graph_type \<in> set graph_types")
  case True
  from label_lookup_Inr [OF this] show ?thesis
    using True by (auto simp: get_graph_title_def dict_item_def Let_def)
next
  case False
  from label_lookup_Inl [OF this] show ?thesis
    using False by (auto simp: get_graph_title_def dict_item_def Let_def)
qed

theorem get_graph_title_KeyError_iff_witness:
  "get_graph_title id [''Age''] [] False ''pie'' = Inl KeyError \<and>
   get_graph_title id [''Age''] [] False ''bar'' \<noteq> Inl KeyError"
  using get_graph_title_KeyError_iff [of id "[''Age'']" "[]" False "''pie''" KeyError]
    get_graph_title_KeyError_iff [of id "[''Age'']" "[]" False "''bar''" KeyError]
  by (simp add: graph_types_def graph_defs)

end
