(* ===== verification/Graph_Tab_Name.thy ===== *)
theory Graph_Tab_Name
  imports Py_Prelude
begin

text \<open>
  \<^verbatim>\<open>get_new_graph_tab_name\<close> of \<^verbatim>\<open>graph_utils.py\<close>: the name of the next graph tab.

  \<^verbatim>\<open>graph_data_dict\<close> maps a graph id to the dictionary of that graph; the function
  iterates over its values, so it is an association list in insertion order, and each
  value is only indexed, so it is a map from keys to \<open>pyval\<close>; what it holds is only
  compared with the names probed, and a value that is no string equals none of
  them. The \<^verbatim>\<open>for\<close> loop is
  \<open>collect_graph_names\<close> (it raises \<^verbatim>\<open>KeyError\<close> at the first graph without a
  \<^verbatim>\<open>graphTabName\<close>), the \<^verbatim>\<open>while\<close> loop is \<open>probe_graph_name\<close>, and the counter, which
  starts at 0 and only grows, is a natural number.

  The loop has no bound in the code. Its termination is proved with the definition:
  the names \<^verbatim>\<open>graph0\<close>, \<^verbatim>\<open>graph1\<close>, ... are pairwise different, so only finitely many of
  them are in the list, and each round leaves one fewer ahead of the counter. The
  lemmas then show that the name returned is fresh, is the first free one, and is
  reached within as many rounds as the list has entries.
\<close>

section \<open>Definitions\<close>

type_synonym graph_data = "string \<rightharpoonup> pyval"

fun collect_graph_names :: "pyval list \<Rightarrow> graph_data list \<Rightarrow> pyval list result" where
  "collect_graph_names all_graph_names [] = Inr all_graph_names"
| "collect_graph_names all_graph_names (graph_data # rest) =
     (case dict_item graph_data ''graphTabName'' of
        Inl e \<Rightarrow> Inl e
      | Inr name \<Rightarrow> collect_graph_names (all_graph_names @ [name]) rest)"

definition graph_name :: "nat \<Rightarrow> string" where
  "graph_name graph_number_indicator = ''graph'' @ str_of_nat graph_number_indicator"

definition taken :: "pyval list \<Rightarrow> nat set" where
  "taken all_graph_names = {k. VStr (graph_name k) \<in> set all_graph_names}"

lemma graph_name_inj [simp]: "graph_name m = graph_name n \<longleftrightarrow> m = n"
  by (simp add: graph_name_def)

lemma finite_taken [simp]: "finite (taken names)"
proof -
  have "inj (\<lambda>k. VStr (graph_name k))" by (simp add: inj_on_def)
  then have "finite ((\<lambda>k. VStr (graph_name k)) -` set names)"
    by (intro finite_vimageI) simp_all
  then show ?thesis by (simp add: taken_def vimage_def)
qed

function probe_graph_name :: "pyval list \<Rightarrow> nat \<Rightarrow> string" where
  "probe_graph_name all_graph_names graph_number_indicator =
     (if VStr (graph_name graph_number_indicator) \<in> set all_graph_names
      then probe_graph_name all_graph_names (graph_number_indicator + 1)
      else graph_name graph_number_indicator)"
  by pat_completeness auto
termination
proof (relation "measure (\<lambda>(names, n). card {k \<in> taken names. n \<le> k})")
  fix names :: "pyval list" and n :: nat
  assume "VStr (graph_name n) \<in> set names"
  then have "n \<in> {k \<in> taken names. n \<le> k}" "n \<notin> {k \<in> taken names. n + 1 \<le> k}"
    by (simp_all add: taken_def)
  moreover have "{k \<in> taken names. n + 1 \<le> k} \<subseteq> {k \<in> taken names. n \<le> k}"
    by auto
  ultimately have "{k \<in> taken names. n + 1 \<le> k} \<subset> {k \<in> taken names. n \<le> k}"
    by blast
  then have "card {k \<in> taken names. n + 1 \<le> k} < card {k \<in> taken names. n \<le> k}"
    by (intro psubset_card_mono) simp_all
  then show "((names, n + 1), (names, n)) \<in> measure (\<lambda>(names, n). card {k \<in> taken names. n \<le> k})"
    by simp
qed simp

declare probe_graph_name.simps [simp del]

definition get_new_graph_tab_name :: "('k \<times> graph_data) list \<Rightarrow> string result" where
  "get_new_graph_tab_name graph_data_dict =
     (case collect_graph_names [] (map snd graph_data_dict) of
        Inl e \<Rightarrow> Inl e
      | Inr all_graph_names \<Rightarrow> Inr (probe_graph_name all_graph_names 0))"

section \<open>The two loops\<close>

lemma collect_graph_names_Inr:
  "collect_graph_names acc gds = Inr names \<longleftrightarrow>
     (\<forall>gd\<in>set gds. gd ''graphTabName'' \<noteq> None) \<and>
     names = acc @ map (\<lambda>gd. the (gd ''graphTabName'')) gds"
  by (induction gds arbitrary: acc) (auto simp: dict_item_def split: option.splits)

lemma collect_graph_names_Inl:
  "collect_graph_names acc gds = Inl e \<longleftrightarrow>
     e = KeyError \<and> (\<exists>gd\<in>set gds. gd ''graphTabName'' = None)"
  by (induction gds arbitrary: acc) (auto simp: dict_item_def split: option.splits)

lemma probe_graph_name_first:
  "\<exists>k\<ge>n. probe_graph_name names n = graph_name k \<and> k \<notin> taken names \<and>
     (\<forall>j. n \<le> j \<and> j < k \<longrightarrow> j \<in> taken names)"
proof (induction names n rule: probe_graph_name.induct)
  case (1 names n)
  show ?case
  proof (cases "n \<in> taken names")
    case True
    with "1.IH" obtain k where k: "n + 1 \<le> k" "probe_graph_name names (n + 1) = graph_name k"
      "k \<notin> taken names" "\<forall>j. n + 1 \<le> j \<and> j < k \<longrightarrow> j \<in> taken names"
      by (auto simp: taken_def)
    from k(4) True have "\<forall>j. n \<le> j \<and> j < k \<longrightarrow> j \<in> taken names"
      by (metis Suc_eq_plus1 Suc_leI le_neq_implies_less)
    with k(1-3) True show ?thesis
      by (intro exI [of _ k]) (simp add: probe_graph_name.simps [of names n] taken_def)
  next
    case False
    then show ?thesis
      by (intro exI [of _ n]) (auto simp: probe_graph_name.simps [of names n] taken_def)
  qed
qed

lemma probe_graph_name_taken [py_eval]:
  "VStr (graph_name n) \<in> set names \<Longrightarrow> probe_graph_name names n = probe_graph_name names (n + 1)"
  by (simp add: probe_graph_name.simps [of names n])

lemma probe_graph_name_free [py_eval]:
  "VStr (graph_name n) \<notin> set names \<Longrightarrow> probe_graph_name names n = graph_name n"
  by (simp add: probe_graph_name.simps [of names n])

lemma card_taken_le: "card (taken names) \<le> length names"
proof -
  have "card (taken names) \<le> card (set names)"
    by (rule card_inj_on_le [where f = "\<lambda>k. VStr (graph_name k)"])
      (auto simp: inj_on_def taken_def)
  also have "\<dots> \<le> length names" by (rule card_length)
  finally show ?thesis .
qed

lemma probe_graph_name_fresh: "VStr (probe_graph_name names n) \<notin> set names"
  using probe_graph_name_first [of n names] by (auto simp: taken_def)

lemma probe_graph_name_least:
  "probe_graph_name names 0 = graph_name (LEAST k. VStr (graph_name k) \<notin> set names)"
proof -
  from probe_graph_name_first [of 0 names] obtain k where
    k: "probe_graph_name names 0 = graph_name k" "k \<notin> taken names" "\<forall>j<k. j \<in> taken names"
    by auto
  then have "(LEAST k. VStr (graph_name k) \<notin> set names) = k"
    by (intro Least_equality) (auto simp: taken_def not_less [symmetric])
  with k(1) show ?thesis by simp
qed

lemma bex_values:
  "(\<exists>gd\<in>set (map snd d). P gd) \<longleftrightarrow> (\<exists>(gid, gd)\<in>set d. P gd)"
  by (induction d) auto

section \<open>Properties\<close>

text \<open>
  C16. The loop ends within as many rounds as there are collected names: the number in
  the name returned is at most the length of the list.
\<close>

theorem probe_graph_name_bound:
  "\<exists>k\<le>length names. probe_graph_name names 0 = graph_name k"
proof -
  from probe_graph_name_first [of 0 names] obtain k where
    k: "probe_graph_name names 0 = graph_name k" "\<forall>j<k. j \<in> taken names"
    by auto
  then have "{..<k} \<subseteq> taken names" by auto
  then have "card {..<k} \<le> card (taken names)" by (intro card_mono) simp_all
  with card_taken_le [of names] have "k \<le> length names" by simp
  with k(1) show ?thesis by blast
qed

theorem probe_graph_name_bound_witness:
  "\<exists>k\<le>length [VStr ''graph0'', VStr ''graph2'', VNone]. 
     probe_graph_name [VStr ''graph0'', VStr ''graph2'', VNone] 0 = graph_name k"
  using probe_graph_name_bound [of "[VStr ''graph0'', VStr ''graph2'', VNone]"] .

text \<open>
  C20. \<^verbatim>\<open>get_new_graph_tab_name\<close> raises \<^verbatim>\<open>KeyError\<close> exactly when some graph of the
  dictionary has no \<^verbatim>\<open>graphTabName\<close>; otherwise it returns a name.
\<close>

theorem get_new_graph_tab_name_KeyError_iff:
  "get_new_graph_tab_name graph_data_dict = Inl e \<longleftrightarrow>
     e = KeyError \<and> (\<exists>(gid, graph_data)\<in>set graph_data_dict. graph_data ''graphTabName'' = None)"
proof (cases "collect_graph_names [] (map snd graph_data_dict)")
  case (Inl e')
  with collect_graph_names_Inl [of "[]" "map snd graph_data_dict" e'] show ?thesis
    unfolding get_new_graph_tab_name_def bex_values by auto
next
  case (Inr names)
  with collect_graph_names_Inr [of "[]" "map snd graph_data_dict" names] show ?thesis
    unfolding get_new_graph_tab_name_def bex_values [symmetric] by auto
qed

theorem get_new_graph_tab_name_KeyError_iff_witness:
  "get_new_graph_tab_name [(''a'', [''graphTabName'' \<mapsto> VStr ''graph0'']), (''b'', Map.empty)]
     = Inl KeyError"
  using get_new_graph_tab_name_KeyError_iff
    [of "[(''a'', [''graphTabName'' \<mapsto> VStr ''graph0'']), (''b'', Map.empty)]" KeyError]
  by simp

text \<open>
  C6. When every graph has a tab name, \<^verbatim>\<open>get_new_graph_tab_name\<close> returns \<^verbatim>\<open>graph<N>\<close>
  for the least \<open>N\<close> that is not the tab name of a graph of the dictionary, and that
  name is not the tab name of any graph.
\<close>

theorem get_new_graph_tab_name_value:
  assumes "\<forall>(gid, graph_data)\<in>set graph_data_dict. graph_data ''graphTabName'' \<noteq> None"
  defines "names \<equiv> map (\<lambda>(gid, graph_data). the (graph_data ''graphTabName'')) graph_data_dict"
  shows "get_new_graph_tab_name graph_data_dict =
           Inr (graph_name (LEAST k. VStr (graph_name k) \<notin> set names)) \<and>
         VStr (graph_name (LEAST k. VStr (graph_name k) \<notin> set names)) \<notin> set names"
proof -
  have "names = map (\<lambda>gd. the (gd ''graphTabName'')) (map snd graph_data_dict)"
    by (simp add: names_def case_prod_unfold comp_def)
  with assms(1) have "collect_graph_names [] (map snd graph_data_dict) = Inr names"
    by (subst collect_graph_names_Inr) auto
  then have "get_new_graph_tab_name graph_data_dict = Inr (probe_graph_name names 0)"
    by (simp add: get_new_graph_tab_name_def)
  then show ?thesis
    using probe_graph_name_fresh [of names 0] by (simp add: probe_graph_name_least)
qed

theorem get_new_graph_tab_name_value_witness:
  "get_new_graph_tab_name
     [(''id0'', [''graphTabName'' \<mapsto> VStr ''graph0'']), (''id1'', [''graphTabName'' \<mapsto> VStr ''graph2''])]
   = Inr (graph_name (LEAST k. VStr (graph_name k) \<notin> set [VStr ''graph0'', VStr ''graph2''])) \<and>
   get_new_graph_tab_name
     [(''id0'', [''graphTabName'' \<mapsto> VStr ''graph0'']), (''id1'', [''graphTabName'' \<mapsto> VStr ''graph2''])]
   = Inr ''graph1''"
  using get_new_graph_tab_name_value
    [of "[(''id0'', [''graphTabName'' \<mapsto> VStr ''graph0'']), (''id1'', [''graphTabName'' \<mapsto> VStr ''graph2''])]"]
  by (simp add: get_new_graph_tab_name_def graph_name_def py_eval)

text \<open>
  C22. Once the caller has stored a graph under the name returned, the next call
  succeeds and returns another name: names handed out in sequence never collide.
\<close>

theorem get_new_graph_tab_name_next:
  assumes "get_new_graph_tab_name graph_data_dict = Inr name"
  shows "\<exists>name'. get_new_graph_tab_name
             (graph_data_dict @ [(gid, graph_data(''graphTabName'' \<mapsto> VStr name))]) = Inr name' \<and>
           name' \<noteq> name"
proof -
  from assms obtain names where
    names: "collect_graph_names [] (map snd graph_data_dict) = Inr names"
    by (auto simp: get_new_graph_tab_name_def split: sum.splits)
  then have "collect_graph_names []
      (map snd (graph_data_dict @ [(gid, graph_data(''graphTabName'' \<mapsto> VStr name))]))
    = Inr (names @ [VStr name])"
    by (simp add: collect_graph_names_Inr)
  then have "get_new_graph_tab_name
      (graph_data_dict @ [(gid, graph_data(''graphTabName'' \<mapsto> VStr name))])
    = Inr (probe_graph_name (names @ [VStr name]) 0)"
    by (simp add: get_new_graph_tab_name_def)
  moreover have "probe_graph_name (names @ [VStr name]) 0 \<noteq> name"
    using probe_graph_name_fresh [of "names @ [VStr name]" 0] by auto
  ultimately show ?thesis by blast
qed

theorem get_new_graph_tab_name_next_witness:
  "get_new_graph_tab_name [(''id0'', [''graphTabName'' \<mapsto> VStr ''graph0''])] = Inr ''graph1'' \<and>
   (\<exists>name'. get_new_graph_tab_name
      ([(''id0'', [''graphTabName'' \<mapsto> VStr ''graph0''])] @
       [(''id1'', [''graphTabName'' \<mapsto> VStr ''graph1''])]) = Inr name' \<and> name' \<noteq> ''graph1'')"
proof -
  have h: "get_new_graph_tab_name [(''id0'', [''graphTabName'' \<mapsto> VStr ''graph0''])] = Inr ''graph1''"
    by (simp add: get_new_graph_tab_name_def graph_name_def py_eval)
  from get_new_graph_tab_name_next [OF h, of "''id1''" Map.empty] h show ?thesis by simp
qed

end
