(* ===== verification/Param_Code.thy ===== *)
theory Param_Code
  imports Py_Prelude
begin

text \<open>
  The parameter serializer of \<^verbatim>\<open>graph_utils.py\<close>: \<^verbatim>\<open>TAB\<close> and \<^verbatim>\<open>param_dict_to_code\<close>.

  A parameter dictionary is a Python \<^verbatim>\<open>dict\<close> in insertion order whose values are either
  dictionaries again (the \<^verbatim>\<open>isinstance(value, dict)\<close> branch) or anything else; it is an
  association list over the datatype \<open>param\<close>. Such a list may repeat a key, which a
  dictionary cannot: the closed form and the lemmas on the layout hold for every
  list, and \<open>wf_param\<close>, the hypothesis of the lemmas that speak of dictionaries, asks
  for distinct keys at every level. The converter of a scalar to code,
  \<^verbatim>\<open>column_header_to_transpiled_code\<close>, is outside the sources and is the parameter
  \<open>tc\<close> of every definition here, so the lemmas hold for any converter.

  \<open>param_dict_to_code\<close> is the function and \<open>param_items_to_code\<close> its \<^verbatim>\<open>for\<close> loop, with
  the string built so far and the counter \<^verbatim>\<open>value_num\<close> as accumulators; they are
  mutually recursive, as the loop calls the function on a nested dictionary. The level
  is a Python integer and \<^verbatim>\<open>TAB_CONSTANT * (level + 1)\<close> is \<open>str_repeat\<close>, which is empty
  for a count below one.

  \<open>entry_code\<close> is not a function of the source: it names what one round of the loop
  appends after the separator, so that the closed form can be stated.

  The lemmas: the loop equals a join of the entries' code (\<open>entry_code\<close>) with the
  separator; an induction principle over nested dictionaries; the two layouts differ
  in blanks and newlines only; a nested dictionary is always laid out over several
  lines, also when the caller asked for one line, while a dictionary without one
  (\<open>one_line_entry\<close>) gets a single line; parentheses are balanced in the code of a
  well-formed dictionary.
\<close>

section \<open>Definitions\<close>

datatype 'v param = Scalar 'v | Dict "(string \<times> 'v param) list"

type_synonym 'v param_dict = "(string \<times> 'v param) list"

definition TAB :: string where "TAB = ''    ''"

fun param_dict_to_code :: "('v \<Rightarrow> string) \<Rightarrow> 'v param_dict \<Rightarrow> int \<Rightarrow> bool \<Rightarrow> string"
  and param_items_to_code ::
    "('v \<Rightarrow> string) \<Rightarrow> int \<Rightarrow> string \<Rightarrow> string \<Rightarrow> 'v param_dict \<Rightarrow> string \<Rightarrow> nat \<Rightarrow> string"
where
  "param_dict_to_code tc param_dict level as_single_line =
     (let TAB_CONSTANT = (if as_single_line then [] else TAB);
          NEWLINE_CONSTANT = (if as_single_line then [] else ''\<newline>'');
          code = (if level = 0 then NEWLINE_CONSTANT else ''dict('' @ NEWLINE_CONSTANT);
          code = param_items_to_code tc level TAB_CONSTANT NEWLINE_CONSTANT param_dict code 0
      in if level = 0 then code @ NEWLINE_CONSTANT
         else code @ NEWLINE_CONSTANT @ str_repeat TAB_CONSTANT level @ '')'')"
| "param_items_to_code tc level TAB_CONSTANT NEWLINE_CONSTANT [] code value_num = code"
| "param_items_to_code tc level TAB_CONSTANT NEWLINE_CONSTANT ((key, value) # rest) code value_num =
     (let code_chunk =
            (case value of
               Dict d \<Rightarrow> key @ '' = '' @ param_dict_to_code tc d (level + 1) False
             | Scalar v \<Rightarrow> key @ ''='' @ tc v);
          code = (if value_num \<noteq> 0 then code @ '', '' @ NEWLINE_CONSTANT else code);
          code = code @ str_repeat TAB_CONSTANT (level + 1);
          code = code @ code_chunk
      in param_items_to_code tc level TAB_CONSTANT NEWLINE_CONSTANT rest code (value_num + 1))"


fun entry_code :: "('v \<Rightarrow> string) \<Rightarrow> int \<Rightarrow> string \<Rightarrow> string \<times> 'v param \<Rightarrow> string" where
  "entry_code tc level TAB_CONSTANT (key, Scalar v) =
     str_repeat TAB_CONSTANT (level + 1) @ key @ ''='' @ tc v"
| "entry_code tc level TAB_CONSTANT (key, Dict d) =
     str_repeat TAB_CONSTANT (level + 1) @ key @ '' = '' @ param_dict_to_code tc d (level + 1) False"

definition strip_ws :: "string \<Rightarrow> string" where
  "strip_ws s = filter (\<lambda>c. c \<noteq> CHR '' '' \<and> c \<noteq> CHR 0x0A) s"

fun paren_scan :: "nat \<Rightarrow> string \<Rightarrow> nat option" where
  "paren_scan b [] = Some b"
| "paren_scan b (c # cs) =
     (if c = CHR ''('' then paren_scan (Suc b) cs
      else if c = CHR '')'' then (if b = 0 then None else paren_scan (b - 1) cs)
      else paren_scan b cs)"

definition balanced :: "string \<Rightarrow> bool" where
  "balanced s \<longleftrightarrow> paren_scan 0 s = Some 0"

definition ident_char :: "char \<Rightarrow> bool" where
  "ident_char c \<longleftrightarrow>
     (let n = (of_char c :: nat)
      in (97 \<le> n \<and> n \<le> 122) \<or> (65 \<le> n \<and> n \<le> 90) \<or> n = 95 \<or> (48 \<le> n \<and> n \<le> 57))"

definition is_identifier :: "string \<Rightarrow> bool" where
  "is_identifier k \<longleftrightarrow> k \<noteq> [] \<and> list_all ident_char k \<and> \<not> (48 \<le> (of_char (hd k) :: nat) \<and> (of_char (hd k) :: nat) \<le> 57)"

definition one_line_entry :: "('v \<Rightarrow> string) \<Rightarrow> string \<times> 'v param \<Rightarrow> bool" where
  "one_line_entry tc entry \<longleftrightarrow>
     (case snd entry of Scalar v \<Rightarrow> CHR 0x0A \<notin> set (fst entry @ tc v) | Dict d \<Rightarrow> False)"

fun wf_param :: "('v \<Rightarrow> bool) \<Rightarrow> 'v param \<Rightarrow> bool" where
  "wf_param ok (Scalar v) = ok v"
| "wf_param ok (Dict d) =
     (distinct (map fst d) \<and> list_all (\<lambda>entry. is_identifier (fst entry) \<and> wf_param ok (snd entry)) d)"

section \<open>The loop as a join\<close>

lemma param_items_to_code_join:
  "param_items_to_code tc level T N items code value_num =
     code @ (if items = [] then []
             else (if value_num \<noteq> 0 then '', '' @ N else []) @
                  str_join ('', '' @ N) (map (entry_code tc level T) items))"
proof (induction items arbitrary: code value_num)
  case Nil
  then show ?case by simp
next
  case (Cons entry items)
  obtain key "value" where entry: "entry = (key, value)" by (cases entry)
  show ?case
    by (cases "value")
      (simp_all add: entry Cons.IH Let_def str_join_Cons del: param_dict_to_code.simps)
qed

lemma param_dict_to_code_single:
  "param_dict_to_code tc param_dict level True =
     (if level = 0 then [] else ''dict('') @
     str_join '', '' (map (entry_code tc level []) param_dict) @
     (if level = 0 then [] else '')'')"
  by (cases param_dict) (simp_all add: param_items_to_code_join Let_def del: param_items_to_code.simps)

lemma param_dict_to_code_multi:
  "param_dict_to_code tc param_dict level False =
     (if level = 0 then ''\<newline>'' else ''dict(\<newline>'') @
     str_join '', \<newline>'' (map (entry_code tc level TAB) param_dict) @
     (if level = 0 then ''\<newline>'' else ''\<newline>'' @ str_repeat TAB level @ '')'')"
  by (cases param_dict) (simp_all add: param_items_to_code_join Let_def del: param_items_to_code.simps)

lemmas param_dict_to_code_join = param_dict_to_code_single param_dict_to_code_multi

lemma param_dict_induct [case_names Dict]:
  assumes "\<And>d. (\<And>key d'. (key, Dict d') \<in> set d \<Longrightarrow> P d') \<Longrightarrow> P d"
  shows "P (d :: 'v param_dict)"
proof (induction d rule: measure_induct_rule [where f = "size_list (size_prod (\<lambda>_. 0) size)"])
  case (less d)
  show ?case
  proof (rule assms)
    fix key d' assume "(key, Dict d') \<in> set d"
    then have "size_list (size_prod (\<lambda>_. 0) size) d' < size_list (size_prod (\<lambda>_. 0) size) d"
      by (intro size_list_estimation [where x = "(key, Dict d')"]) simp_all
    then show "P d'" by (rule less.IH)
  qed
qed

declare param_dict_to_code.simps [simp del]

section \<open>Blanks, newlines and parentheses\<close>

lemma strip_ws_append [simp]: "strip_ws (xs @ ys) = strip_ws xs @ strip_ws ys"
  by (simp add: strip_ws_def)

lemma strip_ws_Nil [simp]: "strip_ws [] = []"
  by (simp add: strip_ws_def)

lemma strip_ws_Cons [simp]:
  "strip_ws (c # cs) = (if c = CHR '' '' \<or> c = CHR 0x0A then strip_ws cs else c # strip_ws cs)"
  by (simp add: strip_ws_def)

lemma strip_ws_str_join: "strip_ws (str_join sep xs) = str_join (strip_ws sep) (map strip_ws xs)"
  by (induction sep xs rule: str_join.induct) simp_all

lemma strip_ws_blank: "set s \<subseteq> {CHR '' '', CHR 0x0A} \<Longrightarrow> strip_ws s = []"
  by (auto simp: strip_ws_def filter_empty_conv)

lemma strip_ws_repeat_TAB [simp]: "strip_ws (str_repeat TAB n) = []"
  using set_str_repeat_subset [of TAB n] by (intro strip_ws_blank) (auto simp: TAB_def)

lemma strip_ws_entry_code [simp]:
  "strip_ws (entry_code tc level TAB entry) = strip_ws (entry_code tc level [] entry)"
  by (cases "(tc, level, TAB, entry)" rule: entry_code.cases) simp_all

lemma newline_in_multi_line: "CHR 0x0A \<in> set (param_dict_to_code tc d level False)"
  by (simp add: param_dict_to_code_join)

lemma one_line_entry_code:
  "one_line_entry tc entry \<Longrightarrow> CHR 0x0A \<notin> set (entry_code tc level [] entry)"
  by (cases "(tc, level, [] :: string, entry)" rule: entry_code.cases)
    (simp_all add: one_line_entry_def)

lemma set_str_join_member: "x \<in> set xs \<Longrightarrow> set x \<subseteq> set (str_join sep xs)"
  by (induction sep xs rule: str_join.induct) auto

lemma paren_scan_append:
  "paren_scan b (xs @ ys) = Option.bind (paren_scan b xs) (\<lambda>b'. paren_scan b' ys)"
  by (induction xs arbitrary: b) auto

lemma paren_scan_shift:
  "paren_scan b xs = Some b' \<Longrightarrow> paren_scan (b + k) xs = Some (b' + k)"
proof (induction xs arbitrary: b)
  case Nil
  then show ?case by simp
next
  case (Cons c cs)
  from Cons.prems show ?case
    using Cons.IH [of "Suc b"] Cons.IH [of "b - 1"] Cons.IH [of b]
    by (auto split: if_splits)
qed

lemma balanced_scan: "balanced xs \<Longrightarrow> paren_scan b xs = Some b"
  using paren_scan_shift [of 0 xs 0 b] by (simp add: balanced_def)

lemma balanced_Nil [simp]: "balanced []"
  by (simp add: balanced_def)

lemma balanced_append [simp]: "balanced xs \<Longrightarrow> balanced ys \<Longrightarrow> balanced (xs @ ys)"
  by (simp add: balanced_def paren_scan_append)

lemma balanced_Cons_plain [simp]:
  "c \<noteq> CHR ''('' \<Longrightarrow> c \<noteq> CHR '')'' \<Longrightarrow> balanced (c # s) \<longleftrightarrow> balanced s"
  by (simp add: balanced_def)

lemma balanced_parens: "balanced xs \<Longrightarrow> balanced (CHR ''('' # xs @ '')'')"
  by (simp add: balanced_def paren_scan_append balanced_scan)

lemma paren_free_scan:
  "CHR ''('' \<notin> set s \<Longrightarrow> CHR '')'' \<notin> set s \<Longrightarrow> paren_scan b s = Some b"
  by (induction s) auto

lemma paren_free_balanced: "CHR ''('' \<notin> set s \<Longrightarrow> CHR '')'' \<notin> set s \<Longrightarrow> balanced s"
  by (simp add: balanced_def paren_free_scan)

lemma balanced_str_join:
  "balanced sep \<Longrightarrow> \<forall>x\<in>set xs. balanced x \<Longrightarrow> balanced (str_join sep xs)"
  by (induction sep xs rule: str_join.induct) simp_all

lemma balanced_str_repeat_TAB [simp]: "balanced (str_repeat TAB n)"
  using set_str_repeat_subset [of TAB n] by (intro paren_free_balanced) (auto simp: TAB_def)

lemma ident_char_plain:
  "ident_char c \<Longrightarrow> c \<notin> {CHR ''('', CHR '')'', CHR '' '', CHR 0x0A, CHR ''='', CHR '',''}"
  by (auto simp: ident_char_def)

lemma identifier_balanced: "is_identifier k \<Longrightarrow> balanced k"
  by (intro paren_free_balanced) (auto simp: is_identifier_def list_all_iff dest: ident_char_plain)

lemma wf_param_entry:
  "wf_param ok (Dict d) \<Longrightarrow> (key, p) \<in> set d \<Longrightarrow> is_identifier key \<and> wf_param ok p"
  unfolding wf_param.simps list_all_iff by force

lemmas wf_param_key = wf_param_entry [THEN conjunct1]
  and wf_param_value = wf_param_entry [THEN conjunct2]

section \<open>Properties\<close>

text \<open>
  C1. \<^verbatim>\<open>param_dict_to_code\<close> equals the closed form of its loop: an opening (nothing or
  a newline at level 0, \<^verbatim>\<open>dict(\<close> otherwise), the code of the entries in the order of
  the dictionary joined by a comma, a space and the newline constant, and a closing
  (at a level other than 0 the newline constant, the indentation of the level and the
  closing parenthesis). Every entry is indented by one level more than the dictionary
  and the counter of the loop only decides where a separator goes.
\<close>

theorem param_dict_to_code_closed_form:
  "param_dict_to_code tc param_dict level as_single_line =
     (if level = 0 then [] else ''dict('') @
     (if as_single_line then [] else ''\<newline>'') @
     str_join ('', '' @ (if as_single_line then [] else ''\<newline>''))
       (map (entry_code tc level (if as_single_line then [] else TAB)) param_dict) @
     (if as_single_line then [] else ''\<newline>'') @
     (if level = 0 then [] else str_repeat (if as_single_line then [] else TAB) level @ '')'')"
  by (cases as_single_line) (simp_all add: param_dict_to_code_join)

text \<open>
  C13. The single line and the multi line code of the same dictionary at the same level
  are equal once blanks and newlines are removed: the flag changes the layout only.
\<close>

theorem param_dict_to_code_whitespace:
  "strip_ws (param_dict_to_code tc param_dict level True) =
   strip_ws (param_dict_to_code tc param_dict level False)"
  by (simp add: param_dict_to_code_join strip_ws_str_join comp_def)

text \<open>
  C3. When the dictionary holds a nested dictionary, the code asked for as a single
  line contains a newline: the recursive call does not pass the flag on, so the nested
  dictionary is laid out over several lines.
\<close>

theorem param_dict_to_code_single_line_newline:
  assumes "(key, Dict d) \<in> set param_dict"
  shows "CHR 0x0A \<in> set (param_dict_to_code tc param_dict level True)"
proof -
  have "CHR 0x0A \<in> set (entry_code tc level [] (key, Dict d))"
    by (simp add: newline_in_multi_line)
  moreover from assms have "set (entry_code tc level [] (key, Dict d))
      \<subseteq> set (str_join '', '' (map (entry_code tc level []) param_dict))"
    by (intro set_str_join_member) force
  ultimately show ?thesis by (auto simp: param_dict_to_code_join)
qed

theorem param_dict_to_code_single_line_newline_witness:
  "param_dict_to_code id [(''x'', Scalar ''1''), (''y'', Dict [(''a'', Scalar ''2'')])] 0 True =
     ''x=1, y = dict(\<newline>        a=2\<newline>    )'' \<and>
   CHR 0x0A \<in> set (param_dict_to_code id [(''x'', Scalar ''1''), (''y'', Dict [(''a'', Scalar ''2'')])] 0 True)"
  using param_dict_to_code_single_line_newline
    [of "''y''" "[(''a'', Scalar ''2'')]" "[(''x'', Scalar ''1''), (''y'', Dict [(''a'', Scalar ''2'')])]" id 0]
  by (simp add: param_dict_to_code_join TAB_def py_eval)

text \<open>
  C14. When no value of the dictionary is a dictionary and neither the keys nor the
  code of the values contain a newline, the code asked for as a single line contains
  no newline.
\<close>

theorem param_dict_to_code_single_line_flat:
  assumes "list_all (one_line_entry tc) param_dict"
  shows "CHR 0x0A \<notin> set (param_dict_to_code tc param_dict level True)"
proof -
  from assms have "\<forall>x\<in>set (map (entry_code tc level []) param_dict). CHR 0x0A \<notin> set x"
    by (simp add: list_all_iff one_line_entry_code)
  with set_str_join_subset [of "'', ''" "map (entry_code tc level []) param_dict"]
  have "CHR 0x0A \<notin> set (str_join '', '' (map (entry_code tc level []) param_dict))"
    by auto
  then show ?thesis by (simp add: param_dict_to_code_single)
qed

theorem param_dict_to_code_single_line_flat_witness:
  "param_dict_to_code id [(''x'', Scalar ''1''), (''y'', Scalar ''2'')] 0 True = ''x=1, y=2'' \<and>
   CHR 0x0A \<notin> set (param_dict_to_code id [(''x'', Scalar ''1''), (''y'', Scalar ''2'')] 0 True)"
  using param_dict_to_code_single_line_flat [of id "[(''x'', Scalar ''1''), (''y'', Scalar ''2'')]" 0]
  by (simp add: one_line_entry_def param_dict_to_code_single)

text \<open>
  C9. For a well-formed dictionary (keys are identifiers and unique at each level,
  scalars are accepted by \<open>ok\<close>) and a converter whose code for an accepted scalar has
  balanced parentheses, the code of the dictionary has balanced parentheses, at every
  level and in both layouts.
\<close>

theorem param_dict_to_code_balanced:
  assumes "wf_param ok (Dict param_dict)" and "\<And>v. ok v \<Longrightarrow> balanced (tc v)"
  shows "balanced (param_dict_to_code tc param_dict level as_single_line)"
  using assms(1)
proof (induction param_dict arbitrary: level as_single_line rule: param_dict_induct)
  case (Dict d)
  have entry: "balanced (entry_code tc level T e)" if "e \<in> set d" "T = [] \<or> T = TAB" for e T
  proof (cases e)
    case (Pair key p)
    with that Dict.prems have key: "balanced key"
      by (blast dest: wf_param_key identifier_balanced)
    show ?thesis
    proof (cases p)
      case (Scalar v)
      with Pair that Dict.prems have "ok v"
        using wf_param_value [of ok d key p] by simp
      then have "balanced (tc v)" by (rule assms(2))
      with key that(2) Pair Scalar show ?thesis by auto
    next
      case (Dict d')
      with Pair that Dict.prems have "balanced (param_dict_to_code tc d' (level + 1) False)"
        by (blast intro: Dict.IH dest: wf_param_value)
      with key that(2) Pair Dict show ?thesis by auto
    qed
  qed
  then have body: "balanced (str_join sep (map (entry_code tc level T) d))"
    if "T = [] \<or> T = TAB" "balanced sep" for T sep
    using that by (intro balanced_str_join) auto
  show ?case
  proof (cases as_single_line)
    case True
    with body [of "[]" "'', ''"] show ?thesis
      by (auto simp: param_dict_to_code_single balanced_parens)
  next
    case False
    with body [of TAB "'', \<newline>''"] balanced_str_repeat_TAB [of level] show ?thesis
      by (auto simp: param_dict_to_code_multi balanced_def paren_scan_append balanced_scan)
  qed
qed

theorem param_dict_to_code_balanced_witness:
  "balanced (param_dict_to_code id
     [(''x'', Scalar ''df[0]''), (''marker'', Dict [(''size'', Scalar ''f(1)'')])] 0 False)"
  using param_dict_to_code_balanced
    [of balanced "[(''x'', Scalar ''df[0]''), (''marker'', Dict [(''size'', Scalar ''f(1)'')])]" id 0 False]
  by (simp add: is_identifier_def ident_char_def balanced_def)

end
