(* ===== verification/Param_Syntax.thy ===== *)
theory Param_Syntax
  imports Param_Code
begin

text \<open>
  The code \<^verbatim>\<open>param_dict_to_code\<close> writes, read as call syntax.

  \<^item> \<open>nesting\<close> is the depth of a parameter: 0 for a scalar, one more than the deepest
    entry for a dictionary. \<open>paren_peak b s\<close> is the highest number of parentheses open
    at once while \<open>s\<close> is read with \<open>b\<close> of them open at the start, and \<open>peaks s m\<close>
    says that \<open>s\<close> is balanced and adds \<open>m\<close> to that number wherever it is read.
  \<^item> \<open>parse_code\<close> reads code back: it removes blanks and newlines and then reads
    entries \<^verbatim>\<open>key=value\<close> separated by commas, where a value is an atom (a text without
    comma, parenthesis, blank or newline) or \<^verbatim>\<open>dict(\<close>, entries and \<^verbatim>\<open>)\<close>. The two
    readers \<open>parse_value\<close> and \<open>parse_entries\<close> call each other on a text that gets
    shorter with every call; their first argument bounds the number of nested calls,
    and \<open>parse_code\<close> starts them with one more than the length of the text, which
    the lemma \<open>parse_entries_code\<close> shows to be enough for every code the serializer
    writes.
  \<^item> \<open>code_tree tc d\<close> is the dictionary \<open>d\<close> with every scalar replaced by its code.

  The lemmas: the highest number of open parentheses in the code is the nesting of
  the dictionary; reading the code back gives the dictionary with the code of its
  scalars; different dictionaries have different code.
\<close>

section \<open>Definitions\<close>

primrec max_list :: "nat list \<Rightarrow> nat" where
  "max_list [] = 0"
| "max_list (x # xs) = max x (max_list xs)"

fun nesting :: "'v param \<Rightarrow> nat" where
  "nesting (Scalar v) = 0"
| "nesting (Dict d) = Suc (max_list (map (\<lambda>entry. nesting (snd entry)) d))"

fun paren_peak :: "nat \<Rightarrow> string \<Rightarrow> nat" where
  "paren_peak b [] = b"
| "paren_peak b (c # cs) =
     max b (paren_peak (if c = CHR ''('' then Suc b else if c = CHR '')'' then b - 1 else b) cs)"

definition paren_free :: "string \<Rightarrow> bool" where
  "paren_free s \<longleftrightarrow> CHR ''('' \<notin> set s \<and> CHR '')'' \<notin> set s"

definition peaks :: "string \<Rightarrow> nat \<Rightarrow> bool" where
  "peaks s m \<longleftrightarrow> balanced s \<and> (\<forall>b. paren_peak b s = b + m)"

definition atom_char :: "char \<Rightarrow> bool" where
  "atom_char c \<longleftrightarrow> c \<notin> {CHR '','', CHR ''('', CHR '')'', CHR '' '', CHR 0x0A}"

definition is_atom :: "string \<Rightarrow> bool" where
  "is_atom s \<longleftrightarrow> s \<noteq> [] \<and> list_all atom_char s"

fun parse_value :: "nat \<Rightarrow> string \<Rightarrow> (string param \<times> string) option"
  and parse_entries :: "nat \<Rightarrow> string \<Rightarrow> (string param_dict \<times> string) option"
where
  "parse_value 0 s = None"
| "parse_value (Suc n) s =
     (let a = takeWhile atom_char s; r = dropWhile atom_char s
      in if a = [] then None
         else case r of
           [] \<Rightarrow> Some (Scalar a, [])
         | c # r' \<Rightarrow>
             if c \<noteq> CHR ''('' then Some (Scalar a, r)
             else if a \<noteq> ''dict'' then None
             else (case parse_entries n r' of
                     Some (d, c' # r'') \<Rightarrow> if c' = CHR '')'' then Some (Dict d, r'') else None
                   | _ \<Rightarrow> None))"
| "parse_entries 0 s = None"
| "parse_entries (Suc n) s =
     (let key = takeWhile ident_char s; r = dropWhile ident_char s
      in if key = [] then Some ([], s)
         else case r of
           [] \<Rightarrow> None
         | c # r' \<Rightarrow>
             if c \<noteq> CHR ''='' then None
             else (case parse_value n r' of
                     None \<Rightarrow> None
                   | Some (v, []) \<Rightarrow> Some ([(key, v)], [])
                   | Some (v, c' # more) \<Rightarrow>
                       if c' \<noteq> CHR '','' then Some ([(key, v)], c' # more)
                       else (case parse_entries n more of
                               None \<Rightarrow> None
                             | Some (d, rest) \<Rightarrow> Some ((key, v) # d, rest))))"

definition parse_code :: "string \<Rightarrow> string param_dict option" where
  "parse_code code =
     (let s = strip_ws code
      in case parse_entries (Suc (length s)) s of
           Some (d, []) \<Rightarrow> Some d
         | _ \<Rightarrow> None)"

definition code_tree :: "('v \<Rightarrow> string) \<Rightarrow> 'v param_dict \<Rightarrow> string param_dict" where
  "code_tree tc d = map (\<lambda>entry. (fst entry, map_param tc (snd entry))) d"

definition closes :: "string \<Rightarrow> bool" where
  "closes rest \<longleftrightarrow> rest = [] \<or> hd rest = CHR '')''"

definition separates :: "string \<Rightarrow> bool" where
  "separates rest \<longleftrightarrow> rest = [] \<or> hd rest = CHR '','' \<or> hd rest = CHR '')''"

fun value_text :: "('v \<Rightarrow> string) \<Rightarrow> int \<Rightarrow> 'v param \<Rightarrow> string" where
  "value_text tc level (Scalar v) = tc v"
| "value_text tc level (Dict d) = strip_ws (param_dict_to_code tc d (level + 1) False)"

section \<open>Open parentheses\<close>

lemma paren_peak_ge: "b \<le> paren_peak b s"
  by (cases s) simp_all

lemma paren_peak_append:
  "paren_scan b xs = Some b' \<Longrightarrow> paren_peak b (xs @ ys) = max (paren_peak b xs) (paren_peak b' ys)"
proof (induction xs arbitrary: b)
  case Nil
  then show ?case using paren_peak_ge [of b ys] by simp
next
  case (Cons c cs)
  then show ?case by (auto split: if_splits simp: max.assoc)
qed

lemma paren_peak_free: "paren_free s \<Longrightarrow> paren_peak b s = b"
  by (induction s) (auto simp: paren_free_def)

lemma paren_free_append [simp]: "paren_free (xs @ ys) \<longleftrightarrow> paren_free xs \<and> paren_free ys"
  by (auto simp: paren_free_def)

lemma paren_free_Nil [simp]: "paren_free []"
  by (simp add: paren_free_def)

lemma paren_free_Cons [simp]:
  "paren_free (c # cs) \<longleftrightarrow> c \<noteq> CHR ''('' \<and> c \<noteq> CHR '')'' \<and> paren_free cs"
  by (auto simp: paren_free_def)

lemma paren_free_scan': "paren_free s \<Longrightarrow> paren_scan b s = Some b"
  by (simp add: paren_free_def paren_free_scan)

lemma paren_peak_free_append [simp]: "paren_free xs \<Longrightarrow> paren_peak b (xs @ ys) = paren_peak b ys"
  using paren_peak_ge [of b ys] by (simp add: paren_peak_append [OF paren_free_scan'] paren_peak_free)

lemma paren_peak_balanced_append:
  "balanced xs \<Longrightarrow> paren_peak b (xs @ ys) = max (paren_peak b xs) (paren_peak b ys)"
  by (simp add: paren_peak_append [OF balanced_scan])

lemma paren_free_str_repeat_TAB [simp]: "paren_free (str_repeat TAB n)"
  using set_str_repeat_subset [of TAB n] by (auto simp: paren_free_def TAB_def)

lemma paren_free_identifier: "is_identifier k \<Longrightarrow> paren_free k"
  by (auto simp: paren_free_def is_identifier_def list_all_iff dest: ident_char_plain)

lemma max_list_shift: "max b (max_list (map (\<lambda>x. b + f x) xs)) = b + max_list (map f xs)"
  by (induction xs) (simp_all add: max.left_commute nat_add_max_right)

lemma paren_peak_str_join:
  "paren_free sep \<Longrightarrow> \<forall>x\<in>set xs. balanced x \<Longrightarrow>
     paren_peak b (str_join sep xs) = max b (max_list (map (paren_peak b) xs))"
proof (induction sep xs rule: str_join.induct)
  case (3 sep x y ys)
  then show ?case
    by (simp add: paren_peak_balanced_append max.left_commute)
qed (simp_all add: max.absorb1 paren_peak_ge max.absorb2)

lemma peaksI: "balanced s \<Longrightarrow> (\<And>b. paren_peak b s = b + m) \<Longrightarrow> peaks s m"
  by (simp add: peaks_def)

lemma peaks_balanced: "peaks s m \<Longrightarrow> balanced s"
  and peaks_peak: "peaks s m \<Longrightarrow> paren_peak b s = b + m"
  by (simp_all add: peaks_def)

lemma peaks_free: "paren_free s \<Longrightarrow> peaks s 0"
  by (simp add: peaks_def paren_peak_free paren_free_balanced paren_free_def)

lemma peaks_free_append [simp]: "paren_free xs \<Longrightarrow> peaks (xs @ ys) m \<longleftrightarrow> peaks ys m"
  by (simp add: peaks_def balanced_def paren_scan_append paren_free_scan')

lemma peaks_Cons_plain [simp]:
  "c \<noteq> CHR ''('' \<Longrightarrow> c \<noteq> CHR '')'' \<Longrightarrow> peaks (c # s) m \<longleftrightarrow> peaks s m"
  using peaks_free_append [of "[c]" s m] by simp

lemma peaks_free_right: "peaks xs m \<Longrightarrow> paren_free ys \<Longrightarrow> peaks (xs @ ys) m"
  by (simp add: peaks_def paren_peak_balanced_append paren_peak_free paren_free_balanced
      paren_free_def max.absorb1)

lemma paren_free_indent [simp]: "T = [] \<or> T = TAB \<Longrightarrow> paren_free (str_repeat T n)"
  by (auto simp: str_repeat_Nil)

lemma peaks_str_join:
  assumes "paren_free sep" and "\<forall>x\<in>set xs. peaks (f x) (g x)"
  shows "peaks (str_join sep (map f xs)) (max_list (map g xs))"
proof (rule peaksI)
  from assms(2) have bal: "\<forall>x\<in>set (map f xs). balanced x" by (auto intro: peaks_balanced)
  with assms(1) show "balanced (str_join sep (map f xs))"
    by (intro balanced_str_join) (simp_all add: paren_free_balanced paren_free_def)
  fix b
  from assms(2) have "map (paren_peak b) (map f xs) = map (\<lambda>x. b + g x) xs"
    by (simp add: peaks_peak)
  with paren_peak_str_join [OF assms(1) bal, of b]
  show "paren_peak b (str_join sep (map f xs)) = b + max_list (map g xs)"
    by (simp only: max_list_shift)
qed

lemma peaks_dict:
  assumes "peaks body m" and "paren_free N" "paren_free N'"
  shows "peaks (''dict('' @ N @ body @ N' @ '')'') (Suc m)"
proof (rule peaksI)
  from assms have inner: "peaks (N @ body @ N') m"
    by (simp add: peaks_free_right)
  then show "balanced (''dict('' @ N @ body @ N' @ '')'')"
    using balanced_parens [of "N @ body @ N'"] by (simp add: peaks_balanced)
  fix b
  from inner have "paren_peak (Suc b) ((N @ body @ N') @ '')'') = Suc b + m"
    by (simp add: paren_peak_balanced_append peaks_balanced peaks_peak max.absorb1 del: append_assoc)
  then show "paren_peak b (''dict('' @ N @ body @ N' @ '')'') = b + Suc m"
    by (simp add: max.absorb2)
qed

lemma peaks_param_dict_to_code:
  assumes "\<And>T sep. T = [] \<or> T = TAB \<Longrightarrow> paren_free sep \<Longrightarrow>
      peaks (str_join sep (map (entry_code tc level T) d)) m"
  shows "peaks (param_dict_to_code tc d level as_single_line) ((if level = 0 then 0 else 1) + m)"
proof (cases as_single_line)
  case True
  from assms [of "[]" "'', ''"] have join: "peaks (str_join '', '' (map (entry_code tc level []) d)) m"
    by simp
  with True peaks_dict [OF join, of "[]" "[]"] show ?thesis
    by (cases "level = 0") (simp_all add: param_dict_to_code_single)
next
  case False
  from assms [of TAB "'', \<newline>''"]
  have join: "peaks (str_join '', \<newline>'' (map (entry_code tc level TAB) d)) m"
    by simp
  with False peaks_dict [OF join, of "''\<newline>''" "''\<newline>'' @ str_repeat TAB level"] show ?thesis
    by (cases "level = 0") (simp_all add: param_dict_to_code_multi peaks_free_right)
qed

lemma paren_peak_code:
  assumes free: "\<And>v. ok v \<Longrightarrow> paren_free (tc v)"
  shows "wf_param ok (Dict d) \<Longrightarrow> 0 \<le> level \<Longrightarrow>
     peaks (param_dict_to_code tc d level as_single_line)
       ((if level = 0 then 0 else 1) + max_list (map (\<lambda>entry. nesting (snd entry)) d))"
proof (induction d arbitrary: level as_single_line rule: param_dict_induct)
  case (Dict d)
  have "peaks (entry_code tc level T e) (nesting (snd e))"
    if "e \<in> set d" "T = [] \<or> T = TAB" for e T
  proof (cases e)
    case (Pair key p)
    with that Dict.prems have key: "is_identifier key" and wf: "wf_param ok p"
      by (auto dest: wf_param_entry simp del: wf_param.simps)
    show ?thesis
    proof (cases p)
      case (Scalar v)
      with wf key that(2) Pair show ?thesis by (simp add: paren_free_identifier peaks_free free)
    next
      case inner: (Dict d')
      with Pair that wf Dict.IH [of key d' "level + 1" False] Dict.prems(2)
      have "peaks (param_dict_to_code tc d' (level + 1) False) (nesting (Dict d'))"
        by simp
      with key that(2) Pair inner show ?thesis by (simp add: paren_free_identifier)
    qed
  qed
  then show ?case by (intro peaks_param_dict_to_code peaks_str_join) simp_all
qed

section \<open>Reading code back\<close>

lemma code_tree_simps [simp]:
  "code_tree tc [] = []"
  "code_tree tc ((key, p) # d) = (key, map_param tc p) # code_tree tc d"
  by (simp_all add: code_tree_def)

lemma map_param_Dict: "map_param tc (Dict d) = Dict (code_tree tc d)"
  by (simp add: code_tree_def map_prod_def case_prod_unfold)

lemma takeWhile_stop:
  "list_all P xs \<Longrightarrow> (r = [] \<or> \<not> P (hd r)) \<Longrightarrow> takeWhile P (xs @ r) = xs \<and> dropWhile P (xs @ r) = r"
  by (induction xs) (auto simp: takeWhile_eq_Nil_iff dropWhile_eq_self_iff)

lemma strip_ws_id: "CHR '' '' \<notin> set s \<Longrightarrow> CHR 0x0A \<notin> set s \<Longrightarrow> strip_ws s = s"
  by (auto simp: strip_ws_def filter_id_conv)

lemma strip_ws_identifier [simp]: "is_identifier k \<Longrightarrow> strip_ws k = k"
  by (intro strip_ws_id) (auto simp: is_identifier_def list_all_iff dest: ident_char_plain)

lemma strip_ws_atom [simp]: "is_atom a \<Longrightarrow> strip_ws a = a"
  by (intro strip_ws_id) (auto simp: is_atom_def list_all_iff atom_char_def)

lemma strip_ws_code:
  "strip_ws (param_dict_to_code tc d level as_single_line) =
     (if level = 0 then [] else ''dict('') @
     str_join '','' (map (\<lambda>entry. strip_ws (entry_code tc level [] entry)) d) @
     (if level = 0 then [] else '')'')"
  by (cases as_single_line) (simp_all add: param_dict_to_code_join strip_ws_str_join comp_def)

lemma strip_ws_entry:
  "is_identifier key \<Longrightarrow> (\<And>v. p = Scalar v \<Longrightarrow> is_atom (tc v)) \<Longrightarrow>
     strip_ws (entry_code tc level [] (key, p)) = key @ CHR ''='' # value_text tc level p"
  by (cases p) simp_all

lemma parse_entries_key:
  assumes "is_identifier key" and "parse_value n r = Some (v, rest)"
  shows "parse_entries (Suc n) (key @ CHR ''='' # r) =
     (case rest of
        [] \<Rightarrow> Some ([(key, v)], [])
      | c # more \<Rightarrow>
          if c \<noteq> CHR '','' then Some ([(key, v)], rest)
          else (case parse_entries n more of
                  None \<Rightarrow> None
                | Some (d, rest') \<Rightarrow> Some ((key, v) # d, rest')))"
proof -
  from assms(1) have "list_all ident_char key" "key \<noteq> []" "\<not> ident_char CHR ''=''"
    by (auto simp: is_identifier_def ident_char_def)
  with takeWhile_stop [of ident_char key "CHR ''='' # r"]
  have "takeWhile ident_char (key @ CHR ''='' # r) = key"
    "dropWhile ident_char (key @ CHR ''='' # r) = CHR ''='' # r" by simp_all
  with assms(2) \<open>key \<noteq> []\<close> show ?thesis
    by (simp add: Let_def split: list.splits)
qed

lemma parse_entries_none:
  "closes rest \<Longrightarrow> parse_entries (Suc n) rest = Some ([], rest)"
  by (cases rest) (auto simp: closes_def ident_char_def)

lemma parse_value_atom:
  assumes "is_atom a" and "separates rest"
  shows "parse_value (Suc n) (a @ rest) = Some (Scalar a, rest)"
proof -
  from assms have "list_all atom_char a" "a \<noteq> []" "rest = [] \<or> \<not> atom_char (hd rest)"
    by (auto simp: is_atom_def separates_def atom_char_def)
  with takeWhile_stop [of atom_char a rest]
  have tw: "takeWhile atom_char (a @ rest) = a" "dropWhile atom_char (a @ rest) = rest" by simp_all
  from assms(2) \<open>a \<noteq> []\<close> show ?thesis
    unfolding parse_value.simps Let_def tw by (cases rest) (auto simp: separates_def)
qed

lemma parse_value_dict:
  assumes "parse_entries n r = Some (d, CHR '')'' # rest)"
  shows "parse_value (Suc n) (''dict('' @ r) = Some (Dict d, rest)"
proof -
  have "takeWhile atom_char (''dict'' @ CHR ''('' # r) = ''dict''"
    "dropWhile atom_char (''dict'' @ CHR ''('' # r) = CHR ''('' # r"
    using takeWhile_stop [of atom_char "''dict''" "CHR ''('' # r"] by (simp_all add: atom_char_def)
  with assms show ?thesis by (simp add: Let_def)
qed

declare parse_value.simps(2) [simp del] parse_entries.simps(2) [simp del]

lemma parse_entries_join:
  assumes "closes rest"
  shows "\<forall>e\<in>set es. is_identifier (fst e) \<Longrightarrow>
     (\<And>e R m. e \<in> set es \<Longrightarrow> separates R \<Longrightarrow> length (V (snd e) @ R) < m \<Longrightarrow>
        parse_value m (V (snd e) @ R) = Some (F (snd e), R)) \<Longrightarrow>
     length (str_join '','' (map (\<lambda>e. fst e @ CHR ''='' # V (snd e)) es) @ rest) < m \<Longrightarrow>
     parse_entries m (str_join '','' (map (\<lambda>e. fst e @ CHR ''='' # V (snd e)) es) @ rest) =
       Some (map (\<lambda>e. (fst e, F (snd e))) es, rest)"
proof (induction es arbitrary: m)
  case Nil
  then obtain m' where "m = Suc m'" by (cases m) auto
  with assms show ?case by (simp add: parse_entries_none)
next
  case (Cons e es)
  let ?J = "str_join '','' (map (\<lambda>e. fst e @ CHR ''='' # V (snd e)) es)"
  let ?R = "if es = [] then rest else CHR '','' # ?J @ rest"
  have whole: "str_join '','' (map (\<lambda>e. fst e @ CHR ''='' # V (snd e)) (e # es)) @ rest =
      fst e @ CHR ''='' # V (snd e) @ ?R"
    by (simp add: str_join_Cons)
  from Cons.prems(3) obtain m' where m: "m = Suc m'" by (cases m) auto
  from assms have "separates ?R" by (auto simp: separates_def closes_def)
  moreover from Cons.prems(3) have len: "length (V (snd e) @ ?R) < m'"
    unfolding whole m by simp
  ultimately have v: "parse_value m' (V (snd e) @ ?R) = Some (F (snd e), ?R)"
    by (intro Cons.prems(2)) simp_all
  from Cons.prems(1) have key: "is_identifier (fst e)" by simp
  show ?case
  proof (cases "es = []")
    case True
    with parse_entries_key [OF key v] assms show ?thesis
      unfolding whole m by (cases rest) (auto simp: closes_def)
  next
    case False
    with len have "length (?J @ rest) < m'" by simp
    with Cons.IH [of m'] Cons.prems(1,2)
    have "parse_entries m' (?J @ rest) = Some (map (\<lambda>e. (fst e, F (snd e))) es, rest)" by simp
    with parse_entries_key [OF key v] False show ?thesis
      unfolding whole m by simp
  qed
qed

lemma parse_value_text:
  assumes "\<And>v. p = Scalar v \<Longrightarrow> is_atom (tc v)"
    and "\<And>d n. p = Dict d \<Longrightarrow>
        length (str_join '','' (map (\<lambda>e. strip_ws (entry_code tc (level + 1) [] e)) d) @ CHR '')'' # R) < n \<Longrightarrow>
        parse_entries n (str_join '','' (map (\<lambda>e. strip_ws (entry_code tc (level + 1) [] e)) d) @ CHR '')'' # R) =
          Some (code_tree tc d, CHR '')'' # R)"
    and "0 \<le> level" and "separates R" and "length (value_text tc level p @ R) < m"
  shows "parse_value m (value_text tc level p @ R) = Some (map_param tc p, R)"
proof -
  from assms(5) obtain m' where m: "m = Suc m'" by (cases m) auto
  show ?thesis
  proof (cases p)
    case (Scalar v)
    with assms(1,4) show ?thesis by (simp add: m parse_value_atom)
  next
    case (Dict d)
    let ?J = "str_join '','' (map (\<lambda>e. strip_ws (entry_code tc (level + 1) [] e)) d)"
    from assms(3) have vt: "strip_ws (param_dict_to_code tc d (level + 1) False) = ''dict('' @ ?J @ '')''"
      by (simp add: strip_ws_code)
    with assms(5) m Dict have "length (?J @ CHR '')'' # R) < m'" by simp
    from parse_value_dict [OF assms(2) [OF Dict this]] show ?thesis
      unfolding Dict map_param_Dict value_text.simps vt m by simp
  qed
qed

lemma strip_ws_entries:
  assumes "wf_param ok (Dict d)" and "\<And>v. ok v \<Longrightarrow> is_atom (tc v)"
  shows "map (\<lambda>e. strip_ws (entry_code tc level [] e)) d =
         map (\<lambda>e. fst e @ CHR ''='' # value_text tc level (snd e)) d"
proof (rule map_cong [OF refl])
  fix e assume "e \<in> set d"
  with assms(1) have key: "is_identifier (fst e)" and wf: "wf_param ok (snd e)"
    using wf_param_entry [of ok d "fst e" "snd e"] by simp_all
  have "is_atom (tc v)" if "snd e = Scalar v" for v
    using that wf assms(2) by simp
  with key show "strip_ws (entry_code tc level [] e) = fst e @ CHR ''='' # value_text tc level (snd e)"
    using strip_ws_entry [of "fst e" "snd e" tc level] by simp
qed

lemma parse_entries_code:
  assumes atoms: "\<And>v. ok v \<Longrightarrow> is_atom (tc v)"
  shows "wf_param ok (Dict d) \<Longrightarrow> 0 \<le> level \<Longrightarrow> closes rest \<Longrightarrow>
     length (str_join '','' (map (\<lambda>entry. strip_ws (entry_code tc level [] entry)) d) @ rest) < n \<Longrightarrow>
     parse_entries n (str_join '','' (map (\<lambda>entry. strip_ws (entry_code tc level [] entry)) d) @ rest) =
       Some (code_tree tc d, rest)"
proof (induction d arbitrary: level rest n rule: param_dict_induct)
  case (Dict d)
  have "value": "parse_value m (value_text tc level (snd e) @ R) = Some (map_param tc (snd e), R)"
    if e: "e \<in> set d" and R: "separates R" "length (value_text tc level (snd e) @ R) < m" for e R m
  proof (rule parse_value_text [OF _ _ Dict.prems(2) R])
    from e have mem: "(fst e, snd e) \<in> set d" by simp
    from wf_param_value [OF Dict.prems(1) mem] have wf: "wf_param ok (snd e)" .
    then show "is_atom (tc v)" if "snd e = Scalar v" for v using that by (simp add: atoms)
    fix d' k assume inner: "snd e = Dict d'"
      and len: "length (str_join '','' (map (\<lambda>e. strip_ws (entry_code tc (level + 1) [] e)) d') @ CHR '')'' # R) < k"
    from mem wf have "(fst e, Dict d') \<in> set d" "wf_param ok (Dict d')" unfolding inner .
    moreover from Dict.prems(2) have "0 \<le> level + 1" by simp
    moreover have "closes (CHR '')'' # R)" by (simp add: closes_def)
    ultimately show "parse_entries k (str_join '','' (map (\<lambda>e. strip_ws (entry_code tc (level + 1) [] e)) d') @ CHR '')'' # R) =
        Some (code_tree tc d', CHR '')'' # R)"
      using len by (rule Dict.IH)
  qed
  have keys: "\<forall>e\<in>set d. is_identifier (fst e)"
    using wf_param_key [OF Dict.prems(1)] by auto
  note flat = strip_ws_entries [where ok = ok and tc = tc and level = level, OF Dict.prems(1) atoms]
  from Dict.prems(4)
  have "length (str_join '','' (map (\<lambda>e. fst e @ CHR ''='' # value_text tc level (snd e)) d) @ rest) < n"
    by (simp only: flat)
  from parse_entries_join [where V = "value_text tc level" and F = "map_param tc",
      OF Dict.prems(3) keys "value" this]
  show ?case by (simp only: flat code_tree_def)
qed

lemma wf_param_set: "wf_param ok p \<Longrightarrow> v \<in> set_param p \<Longrightarrow> ok v"
  by (induction p) (auto simp: list_all_iff)

section \<open>Properties\<close>

text \<open>
  C5. Reading back the code of a well-formed dictionary whose scalars have atoms as
  code gives the dictionary itself, with each scalar replaced by its code and the
  entries in their order, in both layouts: the code is valid call syntax and loses
  nothing of the dictionary.
\<close>

theorem parse_code_param_dict_to_code:
  assumes "wf_param ok (Dict param_dict)" and "\<And>v. ok v \<Longrightarrow> is_atom (tc v)"
  shows "parse_code (param_dict_to_code tc param_dict 0 as_single_line) =
           Some (code_tree tc param_dict)"
  using parse_entries_code [where ok = ok and tc = tc and level = 0 and rest = "[]", OF assms(2) assms(1)]
  by (simp add: parse_code_def strip_ws_code closes_def Let_def)

theorem parse_code_param_dict_to_code_witness:
  "parse_code (param_dict_to_code id
      [(''x'', Scalar ''df''), (''marker'', Dict [(''size'', Scalar ''12'')])] 0 False) =
   Some [(''x'', Scalar ''df''), (''marker'', Dict [(''size'', Scalar ''12'')])]"
  using parse_code_param_dict_to_code
    [of is_atom "[(''x'', Scalar ''df''), (''marker'', Dict [(''size'', Scalar ''12'')])]" id False]
  by (simp add: is_identifier_def ident_char_def is_atom_def atom_char_def map_param_Dict param.map_id0)

text \<open>
  C11. For a well-formed dictionary whose scalars have code without parentheses, the
  highest number of parentheses open at once in the code is the nesting of the
  dictionary: one less than the depth of the dictionary at level 0, where the
  dictionary itself is not wrapped, and the depth at a higher level.
\<close>

theorem param_dict_to_code_nesting:
  assumes "wf_param ok (Dict param_dict)" and "\<And>v. ok v \<Longrightarrow> paren_free (tc v)" and "0 \<le> level"
  shows "paren_peak 0 (param_dict_to_code tc param_dict level as_single_line) =
           (if level = 0 then nesting (Dict param_dict) - 1 else nesting (Dict param_dict))"
  using paren_peak_code [where ok = ok and tc = tc, OF assms(2) assms(1) assms(3), of as_single_line]
  by (simp add: peaks_def)

theorem param_dict_to_code_nesting_witness:
  "paren_peak 0 (param_dict_to_code id
      [(''x'', Scalar ''df''), (''marker'', Dict [(''line'', Dict [(''width'', Scalar ''2'')])])] 0 False) = 2"
  using param_dict_to_code_nesting
    [of paren_free "[(''x'', Scalar ''df''), (''marker'', Dict [(''line'', Dict [(''width'', Scalar ''2'')])])]" id 0 False]
  by (simp add: is_identifier_def ident_char_def paren_free_def)

text \<open>
  C15. Two different well-formed dictionaries whose scalars have different atoms as
  code have code that differs in more than blanks and newlines, whatever the layouts
  are.
\<close>

theorem param_dict_to_code_inj:
  assumes wf: "wf_param ok (Dict d)" "wf_param ok (Dict d')"
    and atoms: "\<And>v. ok v \<Longrightarrow> is_atom (tc v)" and inj: "inj_on tc {v. ok v}"
    and neq: "d \<noteq> d'"
  shows "strip_ws (param_dict_to_code tc d 0 as_single_line) \<noteq>
         strip_ws (param_dict_to_code tc d' 0 as_single_line')"
proof
  assume eq: "strip_ws (param_dict_to_code tc d 0 as_single_line) =
              strip_ws (param_dict_to_code tc d' 0 as_single_line')"
  let ?s = "strip_ws (param_dict_to_code tc d 0 as_single_line)"
  let ?s' = "strip_ws (param_dict_to_code tc d' 0 as_single_line')"
  have "parse_entries (Suc (length ?s)) ?s = Some (code_tree tc d, [])"
    using parse_entries_code [where ok = ok and tc = tc and level = 0 and rest = "[]", OF atoms wf(1)]
    by (simp add: strip_ws_code closes_def)
  moreover have "parse_entries (Suc (length ?s')) ?s' = Some (code_tree tc d', [])"
    using parse_entries_code [where ok = ok and tc = tc and level = 0 and rest = "[]", OF atoms wf(2)]
    by (simp add: strip_ws_code closes_def)
  ultimately have "code_tree tc d = code_tree tc d'"
    using eq by simp
  then have eq_map: "map_param tc (Dict d) = map_param tc (Dict d')" by (simp only: map_param_Dict)
  have "Dict d = Dict d'"
  proof (rule param.inj_map_strong)
    show "map_param tc (Dict d) = map_param tc (Dict d')" by (fact eq_map)
  next
    fix v v' assume v: "v \<in> set_param (Dict d)" "v' \<in> set_param (Dict d')" and "tc v = tc v'"
    from wf_param_set [OF wf(1) v(1)] wf_param_set [OF wf(2) v(2)] have "ok v" "ok v'" .
    with inj \<open>tc v = tc v'\<close> show "v = v'" by (simp add: inj_on_def)
  qed
  with neq show False by simp
qed

theorem param_dict_to_code_inj_witness:
  "strip_ws (param_dict_to_code id [(''x'', Scalar ''1'')] 0 True) \<noteq>
   strip_ws (param_dict_to_code id [(''x'', Scalar ''2'')] 0 False)"
  using param_dict_to_code_inj [of is_atom "[(''x'', Scalar ''1'')]" "[(''x'', Scalar ''2'')]" id True False]
  by (simp add: is_identifier_def ident_char_def is_atom_def atom_char_def)

end
