(* ===== verification/Html_Script.thy ===== *)
theory Html_Script
  imports Py_Prelude
begin

text \<open>
  The extractor of \<^verbatim>\<open>graph_utils.py\<close>: \<^verbatim>\<open>get_html_and_script_from_figure\<close>.

  The rendering engine is outside the sources: \<^verbatim>\<open>fig.write_html\<close> is the parameter
  \<open>write_html\<close>, a function from the figure, \<^verbatim>\<open>full_html\<close>, \<^verbatim>\<open>include_plotlyjs\<close>, the
  height and the width to the text written to the buffer. \<open>div_and_script\<close> is what the
  function does with that text: the slice between the first \<^verbatim>\<open><div id=\<close> and the first
  \<^verbatim>\<open></div>\<close> after it, and the \<^verbatim>\<open>while\<close> loop \<open>script_loop\<close> over the script blocks. The
  result, a dictionary with the two keys \<^verbatim>\<open>html\<close> and \<^verbatim>\<open>script\<close>, is a record.

  Indices are Python integers: \<open>str_find\<close> returns \<open>- 1\<close> for no occurrence, and the
  code passes that value on as a start index and as a slice bound, which the model
  does as well. The loop is a \<^theory_text>\<open>function\<close> whose termination is proved with the
  measure \<open>length original_html - index\<close>: a found closing tag lies at or after the
  index, so the next index is larger.

  The lemmas: the opening tag of a script cannot overlap the closing tag that follows
  it, so a slice is never inverted; on a text built from blocks \<open>pre\<close>, opening tag,
  \<open>body\<close>, closing tag (\<open>doc_of\<close>, under \<open>script_block_ok\<close>) the loop returns the bodies in
  order, each followed by \<^verbatim>\<open>;\<close> and a newline, and every text is built that way with a
  tail in which no script is opened and closed (\<open>script_tail_ok\<close>); the slice of the
  container leaves the
  closing tag out, is empty when the marker is missing, and loses the last character
  of the text when no closing tag follows the marker.
\<close>

section \<open>Definitions\<close>

definition DIV_OPEN :: string where "DIV_OPEN = ''<div id=''"
definition DIV_CLOSE :: string where "DIV_CLOSE = ''</div>''"
definition SCRIPT_OPEN :: string where
  "SCRIPT_OPEN = ''<script type='' @ [CHR 0x22] @ ''text/javascript'' @ [CHR 0x22] @ ''>''"
definition SCRIPT_CLOSE :: string where "SCRIPT_CLOSE = ''</script>''"

function script_loop :: "string \<Rightarrow> int \<Rightarrow> string \<Rightarrow> string" where
  "script_loop original_html index script =
     (if index < int (length original_html) then
        (let script_start = str_find original_html SCRIPT_OPEN index;
             script_end = str_find original_html SCRIPT_CLOSE script_start
         in if script_start = - 1 \<or> script_end = - 1 then script
            else script_loop original_html (script_end + 9)
                   (script @
                    str_slice original_html (script_start + int (length SCRIPT_OPEN)) script_end @
                    '';\<newline>''))
      else script)"
  by pat_completeness auto
termination
proof (relation "measure (\<lambda>(original_html, index, script). nat (int (length original_html) - index))",
    goal_cases)
  case 1
  show ?case by simp
next
  case (2 original_html index script script_start script_end)
  then have "index \<le> script_start" "script_start \<le> script_end"
    by (auto dest: str_find_ge_start)
  with 2 show ?case by simp
qed

declare script_loop.simps [simp del]

record html_and_script =
  html :: string
  script :: string

definition div_and_script :: "string \<Rightarrow> html_and_script" where
  "div_and_script original_html =
     \<lparr>html = str_slice original_html (str_find original_html DIV_OPEN 0)
               (str_find original_html DIV_CLOSE (str_find original_html DIV_OPEN 0)),
      script = script_loop original_html 0 []\<rparr>"

definition get_html_and_script_from_figure ::
  "('fig \<Rightarrow> bool \<Rightarrow> bool \<Rightarrow> int \<Rightarrow> int \<Rightarrow> string) \<Rightarrow> 'fig \<Rightarrow> int \<Rightarrow> int \<Rightarrow> bool \<Rightarrow> html_and_script" where
  "get_html_and_script_from_figure write_html fig height width include_plotlyjs =
     div_and_script (write_html fig False include_plotlyjs height width)"

definition script_block_ok :: "string \<times> string \<Rightarrow> bool" where
  "script_block_ok block \<longleftrightarrow>
     str_find (fst block @ SCRIPT_OPEN) SCRIPT_OPEN 0 = int (length (fst block)) \<and>
     str_find (snd block @ SCRIPT_CLOSE) SCRIPT_CLOSE 0 = int (length (snd block))"

definition script_tail_ok :: "string \<Rightarrow> bool" where
  "script_tail_ok tail \<longleftrightarrow>
     str_find tail SCRIPT_OPEN 0 = - 1 \<or>
     str_find tail SCRIPT_CLOSE (str_find tail SCRIPT_OPEN 0) = - 1"

fun doc_of :: "(string \<times> string) list \<Rightarrow> string \<Rightarrow> string" where
  "doc_of [] tail = tail"
| "doc_of ((pre, body) # blocks) tail = pre @ SCRIPT_OPEN @ body @ SCRIPT_CLOSE @ doc_of blocks tail"

section \<open>Tags\<close>

lemma length_SCRIPT_OPEN [simp]: "length SCRIPT_OPEN = 31"
  by (simp add: SCRIPT_OPEN_def)

lemma length_SCRIPT_CLOSE [simp]: "length SCRIPT_CLOSE = 9"
  by (simp add: SCRIPT_CLOSE_def)

lemma script_tags_no_overlap:
  "occurs_at SCRIPT_OPEN s p \<Longrightarrow> occurs_at SCRIPT_CLOSE s q \<Longrightarrow> p \<le> q \<Longrightarrow> p + 31 \<le> q"
  using occurs_at_no_overlap [of SCRIPT_OPEN s p SCRIPT_CLOSE q]
  by (simp add: SCRIPT_OPEN_def SCRIPT_CLOSE_def)

lemma length_DIV_OPEN [simp]: "length DIV_OPEN = 8"
  by (simp add: DIV_OPEN_def)

lemma length_DIV_CLOSE [simp]: "length DIV_CLOSE = 6"
  by (simp add: DIV_CLOSE_def)

section \<open>The loop on a text built from blocks\<close>

lemma script_close_skip:
  assumes "occurs_at SCRIPT_OPEN h s"
  shows "str_find h SCRIPT_CLOSE (int s) = str_find h SCRIPT_CLOSE (int (s + 31))"
proof -
  have "\<forall>k. s \<le> k \<and> k < s + 31 \<longrightarrow> \<not> occurs_at SCRIPT_CLOSE h k"
    using script_tags_no_overlap [OF assms] by (metis not_le)
  then show ?thesis by (intro str_find_skip) simp_all
qed

lemma script_loop_step:
  assumes "script_block_ok (pre, body)"
  shows "script_loop (P @ pre @ SCRIPT_OPEN @ body @ SCRIPT_CLOSE @ R) (int (length P)) acc =
         script_loop (P @ pre @ SCRIPT_OPEN @ body @ SCRIPT_CLOSE @ R)
           (int (length (P @ pre @ SCRIPT_OPEN @ body @ SCRIPT_CLOSE))) (acc @ body @ '';\<newline>'')"
proof -
  let ?h = "P @ pre @ SCRIPT_OPEN @ body @ SCRIPT_CLOSE @ R"
  let ?st = "length P + length pre"
  from assms have start: "str_find ?h SCRIPT_OPEN (int (length P)) = int ?st"
    by (intro str_find_block) (simp add: script_block_ok_def)
  have "occurs_at SCRIPT_OPEN ?h ?st"
    using occurs_at_append_right [of SCRIPT_OPEN "P @ pre" "SCRIPT_OPEN @ body @ SCRIPT_CLOSE @ R" 0]
    by (simp add: occurs_at_def)
  then have "str_find ?h SCRIPT_CLOSE (int ?st) = str_find ?h SCRIPT_CLOSE (int (?st + 31))"
    by (rule script_close_skip)
  also from assms
  have "str_find ((P @ pre @ SCRIPT_OPEN) @ body @ SCRIPT_CLOSE @ R) SCRIPT_CLOSE
          (int (length (P @ pre @ SCRIPT_OPEN))) = int (length (P @ pre @ SCRIPT_OPEN) + length body)"
    by (intro str_find_block) (simp add: script_block_ok_def)
  then have "str_find ?h SCRIPT_CLOSE (int (?st + 31)) = int (?st + 31 + length body)"
    by (simp add: add.assoc)
  finally have stop: "str_find ?h SCRIPT_CLOSE (int ?st) = int (?st + 31 + length body)" .
  have slice: "str_slice ?h (int ?st + int (length SCRIPT_OPEN)) (int (?st + 31 + length body)) = body"
    using str_slice_nonneg [of ?h "?st + 31" "?st + 31 + length body"] by simp
  from start stop slice show ?thesis
    by (subst script_loop.simps) (simp add: Let_def ac_simps)
qed

lemma script_loop_tail:
  assumes "script_tail_ok tail"
  shows "script_loop (P @ tail) (int (length P)) acc = acc"
proof -
  let ?start = "str_find (P @ tail) SCRIPT_OPEN (int (length P))"
  have "?start = - 1 \<or> str_find (P @ tail) SCRIPT_CLOSE ?start = - 1"
  proof (cases "str_find tail SCRIPT_OPEN 0 = - 1")
    case True
    with str_find_append [of P tail SCRIPT_OPEN 0] show ?thesis by simp
  next
    case False
    from str_find_found [OF this] obtain j where j: "str_find tail SCRIPT_OPEN 0 = int j" by auto
    with assms have "str_find tail SCRIPT_CLOSE (int j) = - 1" by (simp add: script_tail_ok_def)
    with j str_find_append [of P tail SCRIPT_OPEN 0] str_find_append [of P tail SCRIPT_CLOSE j]
    show ?thesis by simp
  qed
  then show ?thesis by (subst script_loop.simps) (auto simp: Let_def)
qed

lemma script_loop_blocks:
  assumes "list_all script_block_ok blocks" and "script_tail_ok tail"
  shows "script_loop (P @ doc_of blocks tail) (int (length P)) acc =
           acc @ concat (map (\<lambda>block. snd block @ '';\<newline>'') blocks)"
  using assms(1)
proof (induction blocks arbitrary: P acc)
  case Nil
  from assms(2) show ?case by (simp add: script_loop_tail)
next
  case (Cons block blocks)
  obtain pre body where block: "block = (pre, body)" by (cases block)
  with Cons.prems have ok: "script_block_ok (pre, body)" "list_all script_block_ok blocks"
    by simp_all
  from Cons.IH [OF ok(2), of "P @ pre @ SCRIPT_OPEN @ body @ SCRIPT_CLOSE" "acc @ body @ '';\<newline>''"]
    script_loop_step [OF ok(1), of P "doc_of blocks tail" acc]
  show ?case by (simp add: block)
qed

section \<open>Every text is built from blocks\<close>

lemma script_split:
  assumes s: "str_find h SCRIPT_OPEN 0 = int s" and e: "str_find h SCRIPT_CLOSE (int s) = int e"
  shows "\<exists>pre body rest. h = pre @ SCRIPT_OPEN @ body @ SCRIPT_CLOSE @ rest \<and>
           script_block_ok (pre, body) \<and> length rest < length h"
proof -
  let ?body = "take (e - (s + 31)) (drop (s + 31) h)"
  from str_find_cut [of h SCRIPT_OPEN 0 s] s
  have pre: "h = take s h @ SCRIPT_OPEN @ drop (s + 31) h"
    "str_find (take s h @ SCRIPT_OPEN) SCRIPT_OPEN 0 = int (length (take s h))" by simp_all
  from str_find_0_found [OF s] have "occurs_at SCRIPT_OPEN h s" by simp
  from script_close_skip [OF this] e have "str_find h SCRIPT_CLOSE (int (s + 31)) = int e" by simp
  from str_find_cut [OF this]
  have body: "h = take (s + 31) h @ ?body @ SCRIPT_CLOSE @ drop (e + 9) h"
    "str_find (?body @ SCRIPT_CLOSE) SCRIPT_CLOSE 0 = int (length ?body)" by simp_all
  from pre(1) have "take (s + 31) h = take s h @ SCRIPT_OPEN"
    by (metis append_eq_conv_conj length_SCRIPT_OPEN length_append length_take
        occurs_at_bound [OF \<open>occurs_at SCRIPT_OPEN h s\<close>] add_leD1 min.absorb2 append.assoc)
  with body(1) have "h = take s h @ SCRIPT_OPEN @ ?body @ SCRIPT_CLOSE @ drop (e + 9) h" by simp
  moreover from body(1) have "length (drop (e + 9) h) < length h"
    by (metis length_append length_SCRIPT_CLOSE add_gr_0 zero_less_numeral less_add_same_cancel2
        trans_less_add2 add.commute)
  ultimately show ?thesis
    using pre(2) body(2) unfolding script_block_ok_def by (metis fst_conv snd_conv)
qed

lemma doc_of_complete:
  "\<exists>blocks tail. h = doc_of blocks tail \<and> list_all script_block_ok blocks \<and> script_tail_ok tail"
proof (induction h rule: length_induct)
  case (1 h)
  show ?case
  proof (cases "script_tail_ok h")
    case True
    then show ?thesis by (intro exI [of _ "[]"] exI [of _ h]) simp
  next
    case False
    then have "str_find h SCRIPT_OPEN 0 \<noteq> - 1"
      "str_find h SCRIPT_CLOSE (str_find h SCRIPT_OPEN 0) \<noteq> - 1"
      by (simp_all add: script_tail_ok_def)
    then obtain s e where "str_find h SCRIPT_OPEN 0 = int s" "str_find h SCRIPT_CLOSE (int s) = int e"
      using str_find_found [of h SCRIPT_OPEN 0] str_find_found [of h SCRIPT_CLOSE "str_find h SCRIPT_OPEN 0"]
      by metis
    from script_split [OF this] obtain pre body rest where
      h: "h = pre @ SCRIPT_OPEN @ body @ SCRIPT_CLOSE @ rest" and ok: "script_block_ok (pre, body)"
      and "length rest < length h" by blast
    with 1 obtain blocks tail where "rest = doc_of blocks tail" "list_all script_block_ok blocks"
      "script_tail_ok tail" by blast
    with h ok show ?thesis
      by (intro exI [of _ "(pre, body) # blocks"] exI [of _ tail]) simp
  qed
qed


section \<open>Properties\<close>

text \<open>
  C2. On a text made of blocks (a text in which the opening script tag first occurs
  at its end, the opening tag, a body in which the closing tag first occurs at its
  end, the closing tag) and a tail in which no script is opened or the first script
  opened is never closed, the script returned is the bodies in the order of the text,
  each followed by a semicolon and a newline; the tail adds nothing.
\<close>

theorem div_and_script_script:
  assumes "list_all script_block_ok blocks"
    and "script_tail_ok tail"
  shows "script (div_and_script (doc_of blocks tail)) =
           concat (map (\<lambda>block. snd block @ '';\<newline>'') blocks)"
  using script_loop_blocks [OF assms, of "[]" "[]"] by (simp add: div_and_script_def)

theorem div_and_script_script_witness:
  "script (div_and_script (doc_of [(''<div>'', ''a=1''), (''  '', ''b=2'')] ''</div>'')) = ''a=1;\<newline>b=2;\<newline>''"
  using div_and_script_script [of "[(''<div>'', ''a=1''), (''  '', ''b=2'')]" "''</div>''"]
  by (simp add: script_block_ok_def script_tail_ok_def SCRIPT_OPEN_def SCRIPT_CLOSE_def py_defs)

text \<open>
  C8. Every text is made of such blocks and such a tail, and the script returned for
  it is the bodies of these blocks in order, each followed by a semicolon and a
  newline: the characterisation of the loop on texts made of blocks covers every
  text.
\<close>

theorem script_of_every_document:
  "\<exists>blocks tail. original_html = doc_of blocks tail \<and> list_all script_block_ok blocks \<and>
     script_tail_ok tail \<and>
     script (div_and_script original_html) = concat (map (\<lambda>block. snd block @ '';\<newline>'') blocks)"
proof -
  from doc_of_complete obtain blocks tail where doc: "original_html = doc_of blocks tail"
    "list_all script_block_ok blocks" "script_tail_ok tail" by blast
  from script_loop_blocks [OF doc(2,3), of "[]" "[]"] doc show ?thesis
    by (intro exI [of _ blocks] exI [of _ tail]) (simp add: div_and_script_def)
qed

text \<open>
  C4. When the text holds the marker \<^verbatim>\<open><div id=\<close> and a closing \<^verbatim>\<open></div>\<close> after it, the
  \<^verbatim>\<open>html\<close> returned starts at the marker and ends right before the closing tag: the
  closing tag itself is not part of it.
\<close>

theorem div_without_closing_tag:
  assumes "str_find (pre @ DIV_OPEN) DIV_OPEN 0 = int (length pre)"
    and "str_find (DIV_OPEN @ attrs @ DIV_CLOSE) DIV_CLOSE 0 = int (length (DIV_OPEN @ attrs))"
  shows "html (div_and_script (pre @ DIV_OPEN @ attrs @ DIV_CLOSE @ rest)) = DIV_OPEN @ attrs"
proof -
  let ?h = "pre @ DIV_OPEN @ attrs @ DIV_CLOSE @ rest"
  from str_find_block [OF assms(1), of "[]" "attrs @ DIV_CLOSE @ rest"]
  have a: "str_find ?h DIV_OPEN 0 = int (length pre)" by simp
  from assms(2) have "str_find ((DIV_OPEN @ attrs) @ DIV_CLOSE) DIV_CLOSE 0 = int (length (DIV_OPEN @ attrs))"
    by simp
  from str_find_block [OF this, of pre rest]
  have b: "str_find ?h DIV_CLOSE (int (length pre)) = int (length pre + (8 + length attrs))" by simp
  show ?thesis
    using str_slice_nonneg [of ?h "length pre" "length pre + (8 + length attrs)"]
    by (simp add: div_and_script_def a b)
qed

theorem div_without_closing_tag_witness:
  "html (div_and_script (''<div>'' @ DIV_OPEN @ ''x class=y>'' @ DIV_CLOSE @ ''</div>'')) =
     ''<div id=x class=y>''"
  using div_without_closing_tag [of "''<div>''" "''x class=y>''" "''</div>''"]
  by (simp add: DIV_OPEN_def DIV_CLOSE_def py_defs)

text \<open>
  C10. When the text does not hold the marker \<^verbatim>\<open><div id=\<close>, the function does not fail:
  the \<^verbatim>\<open>html\<close> returned is the empty string.
\<close>

theorem div_missing_marker:
  assumes "str_find original_html DIV_OPEN 0 = - 1"
  shows "html (div_and_script original_html) = []"
proof -
  let ?n = "length original_html"
  have "str_find original_html DIV_CLOSE (- 1) = - 1"
  proof (rule ccontr)
    assume "str_find original_html DIV_CLOSE (- 1) \<noteq> - 1"
    from str_find_found [OF this] obtain j where "?n - 1 \<le> j" "occurs_at DIV_CLOSE original_html j"
      by auto
    with occurs_at_bound [of DIV_CLOSE original_html j] show False by simp
  qed
  with assms show ?thesis by (simp add: div_and_script_def str_slice_def)
qed

theorem div_missing_marker_witness:
  "str_find ''<p>no graph</p>'' DIV_OPEN 0 = - 1 \<and> html (div_and_script ''<p>no graph</p>'') = []"
proof -
  have h: "str_find ''<p>no graph</p>'' DIV_OPEN 0 = - 1"
    by (simp add: DIV_OPEN_def py_defs)
  from div_missing_marker [OF h] h show ?thesis by simp
qed

text \<open>
  C25. When the marker is in the text but no \<^verbatim>\<open></div>\<close> follows it, the \<^verbatim>\<open>html\<close> returned
  is the text from the marker on without its last character.
\<close>

theorem div_missing_closing_tag:
  assumes "str_find original_html DIV_OPEN 0 = int a"
    and "str_find original_html DIV_CLOSE (int a) = - 1"
  shows "html (div_and_script original_html) = butlast (drop a original_html)"
proof -
  from str_find_0_found [OF assms(1)] have "a \<le> length original_html"
    by (simp add: occurs_at_def)
  with assms show ?thesis
    by (simp add: div_and_script_def str_slice_def butlast_conv_take min_def)
qed

theorem div_missing_closing_tag_witness:
  "html (div_and_script ''abc<div id=3>'') = ''<div id=3''"
proof -
  have a: "str_find ''abc<div id=3>'' DIV_OPEN 0 = int 3"
    by (simp add: DIV_OPEN_def py_defs)
  have b: "str_find ''abc<div id=3>'' DIV_CLOSE (int 3) = - 1"
    by (simp add: DIV_CLOSE_def py_defs)
  from div_missing_closing_tag [OF a b] show ?thesis by simp
qed

text \<open>
  C17. In any text, a closing script tag found from the position of an opening script
  tag lies at least the length of the opening tag behind it, so the slice the loop
  takes between the two never has its bounds inverted.
\<close>

theorem script_slice_bounds:
  assumes "str_find original_html SCRIPT_OPEN index = script_start" "script_start \<noteq> - 1"
    and "str_find original_html SCRIPT_CLOSE script_start = script_end" "script_end \<noteq> - 1"
  shows "script_start + int (length SCRIPT_OPEN) \<le> script_end"
proof -
  from assms(1,2) str_find_found [of original_html SCRIPT_OPEN index]
  obtain p where p: "script_start = int p" "occurs_at SCRIPT_OPEN original_html p" by auto
  from assms(3,4) str_find_found [of original_html SCRIPT_CLOSE script_start] p(1)
  obtain q where q: "script_end = int q" "p \<le> q" "occurs_at SCRIPT_CLOSE original_html q" by auto
  from script_tags_no_overlap [OF p(2) q(3,2)] p(1) q(1) show ?thesis by simp
qed

theorem script_slice_bounds_witness:
  "str_find (SCRIPT_OPEN @ ''a=1'' @ SCRIPT_CLOSE) SCRIPT_OPEN 0 = 0 \<and>
   str_find (SCRIPT_OPEN @ ''a=1'' @ SCRIPT_CLOSE) SCRIPT_CLOSE 0 = 34 \<and>
   (0::int) + int (length SCRIPT_OPEN) \<le> 34"
proof -
  have a: "str_find (SCRIPT_OPEN @ ''a=1'' @ SCRIPT_CLOSE) SCRIPT_OPEN 0 = 0"
    by (simp add: SCRIPT_OPEN_def SCRIPT_CLOSE_def py_defs)
  have b: "str_find (SCRIPT_OPEN @ ''a=1'' @ SCRIPT_CLOSE) SCRIPT_CLOSE 0 = 34"
    by (simp add: SCRIPT_OPEN_def SCRIPT_CLOSE_def py_defs)
  from script_slice_bounds [OF a _ b] a b show ?thesis by simp
qed

text \<open>
  C31. The loop only appends: what it returns from an index with a script built so far
  is that script followed by what it returns from the same index with the empty script.
\<close>

theorem script_loop_acc: "script_loop h i acc = acc @ script_loop h i []"
proof (induction "nat (int (length h) - i)" arbitrary: i acc rule: less_induct)
  case less
  let ?a = "str_find h SCRIPT_OPEN i"
  let ?b = "str_find h SCRIPT_CLOSE ?a"
  let ?x = "str_slice h (?a + int (length SCRIPT_OPEN)) ?b @ '';\<newline>''"
  show ?case
  proof (cases "i < int (length h) \<and> ?a \<noteq> - 1 \<and> ?b \<noteq> - 1")
    case True
    then have "i \<le> ?a" "?a \<le> ?b" by (auto dest: str_find_ge_start)
    with True have smaller: "nat (int (length h) - (?b + 9)) < nat (int (length h) - i)" by simp
    from less [OF smaller, of "acc @ ?x"] less [OF smaller, of ?x] True show ?thesis
      by (subst (1 2) script_loop.simps) (simp add: Let_def)
  next
    case False
    then show ?thesis by (subst (1 2) script_loop.simps) (auto simp: Let_def)
  qed
qed

end
