(* ===== verification/Column_Header.thy ===== *)
theory Column_Header
  imports Py_Prelude
begin

text \<open>
  \<^verbatim>\<open>get_column_header_from_optional_column_id_graph_param\<close> of \<^verbatim>\<open>graph_utils.py\<close>: the
  header of the column that an optional parameter of a graph names.

  The state manager is outside the sources. Its part read here is modelled from the
  way the function uses it: \<^verbatim>\<open>state.column_ids.column_id_to_column_header\<close> is a list,
  indexed by the sheet, of dictionaries from column ids to headers, and
  \<^verbatim>\<open>get_column_header_by_id(sheet_index, column_id)\<close> indexes that list and then the
  dictionary. The graph parameters are a dictionary from names to \<open>pyval\<close>, and the
  column ids, the keys of the dictionaries of the state, are \<open>pyval\<close> too: values up
  to \<^verbatim>\<open>==\<close>, so that the parameter \<^verbatim>\<open>True\<close> finds the column with the id \<^verbatim>\<open>1\<close> as it does in
  Python. The header type is a type variable.

  The lemmas say when the function returns a header, when it returns \<^verbatim>\<open>None\<close>, and
  which exception it raises in which case; in particular the lookup by id never
  raises \<^verbatim>\<open>KeyError\<close>, as the guard has checked the id.
\<close>

section \<open>Definitions\<close>

record 'h ColumnIDs =
  column_id_to_column_header :: "(pyval \<rightharpoonup> 'h) list"

record 'h State =
  column_ids :: "'h ColumnIDs"

definition get_column_header_by_id :: "'h ColumnIDs \<Rightarrow> pyval \<Rightarrow> pyval \<Rightarrow> 'h result" where
  "get_column_header_by_id ids sheet_index column_id =
     (case list_item (column_id_to_column_header ids) sheet_index of
        Inl e \<Rightarrow> Inl e
      | Inr headers \<Rightarrow> dict_item headers column_id)"

definition get_column_header_from_optional_column_id_graph_param ::
  "'h State \<Rightarrow> (string \<rightharpoonup> pyval) \<Rightarrow> string \<Rightarrow> 'h option result" where
  "get_column_header_from_optional_column_id_graph_param state graph_creation_params param_name =
     (case dict_item graph_creation_params ''sheet_index'' of
        Inl e \<Rightarrow> Inl e
      | Inr sheet_index \<Rightarrow>
          (case graph_creation_params param_name of
             None \<Rightarrow> Inr None
           | Some column_id \<Rightarrow>
               (case list_item (column_id_to_column_header (column_ids state)) sheet_index of
                  Inl e \<Rightarrow> Inl e
                | Inr headers \<Rightarrow>
                    if column_id \<in> dom headers
                    then map_sum id Some
                           (get_column_header_by_id (column_ids state) sheet_index column_id)
                    else Inr None)))"

section \<open>The guard and the lookup as one access\<close>

lemma get_column_header_by_id_known:
  "list_item (column_id_to_column_header ids) sheet_index = Inr headers \<Longrightarrow>
     get_column_header_by_id ids sheet_index column_id = dict_item headers column_id"
  by (simp add: get_column_header_by_id_def)

lemma get_column_header_unfold:
  "get_column_header_from_optional_column_id_graph_param state graph_creation_params param_name =
     (case graph_creation_params ''sheet_index'' of
        None \<Rightarrow> Inl KeyError
      | Some sheet_index \<Rightarrow>
          (case graph_creation_params param_name of
             None \<Rightarrow> Inr None
           | Some column_id \<Rightarrow>
               (case list_item (column_id_to_column_header (column_ids state)) sheet_index of
                  Inl e \<Rightarrow> Inl e
                | Inr headers \<Rightarrow> Inr (headers column_id))))"
  unfolding get_column_header_from_optional_column_id_graph_param_def case_dict_item
  by (auto simp: get_column_header_by_id_known dict_item_def split: option.split sum.split)

section \<open>Properties\<close>

text \<open>
  C26. The function returns a header exactly when the parameters hold a sheet index
  that is an index of the state's list, the parameter is set, and its value is a column
  id of that sheet; the header is the one the sheet's dictionary holds for the id.
\<close>

theorem get_column_header_Some_iff:
  "get_column_header_from_optional_column_id_graph_param state graph_creation_params param_name
     = Inr (Some header) \<longleftrightarrow>
   (\<exists>sheet_index column_id headers.
      graph_creation_params ''sheet_index'' = Some sheet_index \<and>
      graph_creation_params param_name = Some column_id \<and>
      list_item (column_id_to_column_header (column_ids state)) sheet_index = Inr headers \<and>
      headers column_id = Some header)"
  unfolding get_column_header_unfold by (simp split: option.split sum.split)

theorem get_column_header_Some_iff_witness:
  "get_column_header_from_optional_column_id_graph_param
     \<lparr>column_ids = \<lparr>column_id_to_column_header = [[VStr ''id0'' \<mapsto> ''Age'', VStr ''id1'' \<mapsto> ''Income'']]\<rparr>\<rparr>
     [''sheet_index'' \<mapsto> VInt 0, ''x_axis_column_id'' \<mapsto> VStr ''id1''] ''x_axis_column_id''
   = Inr (Some ''Income'')"
  by (subst get_column_header_Some_iff) (simp add: list_item_def index_of_def)

text \<open>
  C27. The function raises an exception only in three cases: \<^verbatim>\<open>KeyError\<close> when the
  parameters have no sheet index; and, only when the parameter is set, \<^verbatim>\<open>TypeError\<close>
  when the sheet index is not an integer and \<^verbatim>\<open>IndexError\<close> when it is out of the range
  of the state's list. A column id that the sheet does not know never raises.
\<close>

theorem get_column_header_error_iff:
  "get_column_header_from_optional_column_id_graph_param state graph_creation_params param_name
     = Inl e \<longleftrightarrow>
   (graph_creation_params ''sheet_index'' = None \<and> e = KeyError) \<or>
   (\<exists>sheet_index. graph_creation_params ''sheet_index'' = Some sheet_index \<and>
      graph_creation_params param_name \<noteq> None \<and>
      list_item (column_id_to_column_header (column_ids state)) sheet_index = Inl e)"
  unfolding get_column_header_unfold by (auto split: option.split sum.split)

theorem get_column_header_error_iff_witness:
  "get_column_header_from_optional_column_id_graph_param
     \<lparr>column_ids = \<lparr>column_id_to_column_header = [[VStr ''id0'' \<mapsto> ''Age'']]\<rparr>\<rparr>
     [''sheet_index'' \<mapsto> VInt 1, ''color'' \<mapsto> VStr ''id0''] ''color'' = Inl IndexError"
  by (subst get_column_header_error_iff) (simp add: list_item_def index_of_def)

text \<open>
  C28. The function returns \<^verbatim>\<open>None\<close> exactly when the parameters hold a sheet index and
  either the parameter is not set, or the sheet index is an index of the state's list
  and the value of the parameter is not a column id of that sheet. When the parameter
  is not set, a sheet index that is out of range goes unnoticed.
\<close>

theorem get_column_header_None_iff:
  "get_column_header_from_optional_column_id_graph_param state graph_creation_params param_name
     = Inr None \<longleftrightarrow>
   (\<exists>sheet_index. graph_creation_params ''sheet_index'' = Some sheet_index \<and>
      (graph_creation_params param_name = None \<or>
       (\<exists>column_id headers. graph_creation_params param_name = Some column_id \<and>
          list_item (column_id_to_column_header (column_ids state)) sheet_index = Inr headers \<and>
          headers column_id = None)))"
  unfolding get_column_header_unfold by (auto split: option.split sum.split)

theorem get_column_header_None_iff_witness:
  "get_column_header_from_optional_column_id_graph_param
     \<lparr>column_ids = \<lparr>column_id_to_column_header = []\<rparr>\<rparr>
     [''sheet_index'' \<mapsto> VInt 7] ''color'' = (Inr None :: string option result)"
  by (subst get_column_header_None_iff) simp

end
