(* ===== verification/Installer_Steps.thy ===== *)
theory Installer_Steps
  imports Py_Prelude
begin

text \<open>
  The installer steps of \<^verbatim>\<open>mitoinstaller/installer_steps/mitosheet_installer_steps.py\<close>.

  A step is a Python function with no argument and no result that calls the commands
  the module imports (\<^verbatim>\<open>get_jupyterlab_metadata\<close>, \<^verbatim>\<open>install_pip_packages\<close>,
  \<^verbatim>\<open>uninstall_pip_packages\<close>, \<^verbatim>\<open>run_command\<close>, \<^verbatim>\<open>get_recent_traceback\<close>, \<^verbatim>\<open>log\<close>, \<^verbatim>\<open>input\<close>)
  and may raise. \<^verbatim>\<open>install_pip_packages\<close> and \<^verbatim>\<open>uninstall_pip_packages\<close> take the
  packages as positional arguments, which the model passes as a list. Here a step is
  an \<open>action\<close>: a function from the state of the machine \<open>'w\<close> to the exception raised
  or the value returned, and the state afterwards. The commands are the fields of the
  record \<open>commands\<close>, which the steps take as a parameter, so every lemma on the steps
  holds for any behaviour of the commands: each of them, \<^verbatim>\<open>get_recent_traceback\<close>
  included, may change the state and may raise. The extension names are strings, so
  the message of the dependency check, which formats their list, is
  \<open>list_repr str_repr\<close> of it.

  \<^item> \<open>and_then\<close> is one statement after another: the second runs only when the first
    did not raise. \<open>try_except\<close> is \<^verbatim>\<open>try: ... except: ...\<close>: the handler runs, on the state
    the body left, only when the body raised, and gets the exception caught.
  \<^item> The four steps and the list \<open>MITOSHEET_INSTALLER_STEPS\<close> follow the source line by
    line; the branch of the install step that the source switches off with
    \<^verbatim>\<open>if False and ...\<close> is part of the definition, and a lemma shows it is never taken.
  \<^item> \<open>run_installer_steps\<close> runs the steps in the order of the list and stops at the
    first exception; the class \<^verbatim>\<open>InstallerStep\<close> and its runner are imported by the
    module and not part of it.
  \<^item> \<open>recording_commands\<close> is an instance of the commands over the state \<open>world\<close>:
    each command is appended to the log \<open>issued\<close> and fails exactly when \<open>failures\<close> says
    so; reading the traceback there is a read of the state that is not logged and
    never fails. The properties of a whole run are stated on it.
\<close>

section \<open>Actions\<close>

type_synonym ('w, 'a) action = "'w \<Rightarrow> 'a result \<times> 'w"

definition and_then :: "('w, 'a) action \<Rightarrow> ('a \<Rightarrow> ('w, 'b) action) \<Rightarrow> ('w, 'b) action" where
  "and_then f g w = (case f w of (Inl e, w') \<Rightarrow> (Inl e, w') | (Inr x, w') \<Rightarrow> g x w')"

definition return_value :: "'a \<Rightarrow> ('w, 'a) action" where
  "return_value x w = (Inr x, w)"

definition raise :: "py_error \<Rightarrow> ('w, 'a) action" where
  "raise e w = (Inl e, w)"

definition try_except :: "('w, 'a) action \<Rightarrow> (py_error \<Rightarrow> ('w, 'a) action) \<Rightarrow> ('w, 'a) action" where
  "try_except body handler w =
     (case body w of (Inr x, w') \<Rightarrow> (Inr x, w') | (Inl e, w') \<Rightarrow> handler e w')"

section \<open>The commands the steps call\<close>

record 'w commands =
  get_jupyterlab_metadata :: "('w, string option \<times> string list) action"
  install_pip_packages :: "string list \<Rightarrow> bool \<Rightarrow> bool \<Rightarrow> ('w, unit) action"
  uninstall_pip_packages :: "string list \<Rightarrow> ('w, unit) action"
  run_command :: "string list \<Rightarrow> ('w, unit) action"
  get_recent_traceback :: "('w, string) action"
  log_event :: "string \<Rightarrow> ('w, unit) action"
  input_line :: "string \<Rightarrow> ('w, string) action"
  sys_argv :: "string list"
  sys_executable :: string

section \<open>The steps\<close>

definition install_step_mitosheet_check_dependencies :: "'w commands \<Rightarrow> ('w, unit) action" where
  "install_step_mitosheet_check_dependencies c =
     and_then (get_jupyterlab_metadata c) (\<lambda>(jupyterlab_version, extension_names).
       case jupyterlab_version of
         None \<Rightarrow> return_value ()
       | Some version \<Rightarrow>
           if prefix ''3'' version then return_value ()
           else if length extension_names = 0 then return_value ()
           else raise (Exception (''Installed extensions '' @ list_repr str_repr extension_names)))"

definition remove_mitosheet_3_if_present :: "'w commands \<Rightarrow> ('w, unit) action" where
  "remove_mitosheet_3_if_present c = uninstall_pip_packages c [''mitosheet3'']"

definition USER_INSTALL_PROMPT :: string where
  "USER_INSTALL_PROMPT = ''The installer hit a permission error while trying to install Mito. Would you like to do a user install? Note that this will not work inside a virtual enviornment. [y/n] ''"

definition install_step_mitosheet_install_mitosheet :: "'w commands \<Rightarrow> ('w, unit) action" where
  "install_step_mitosheet_install_mitosheet c =
     try_except
       (install_pip_packages c [''mitosheet''] (''--test-pypi'' \<in> set (sys_argv c)) False)
       (\<lambda>e. and_then (get_recent_traceback c) (\<lambda>traceback.
          let error_traceback_last_line = str_strip (last_line (str_strip traceback))
          in if False \<and> error_traceback_last_line =
                  ''Consider using the `--user` option or check the permissions.''
             then and_then (input_line c USER_INSTALL_PROMPT) (\<lambda>do_user_install.
                    if prefix ''y'' (str_lower do_user_install)
                    then and_then (log_event c ''install_mitosheet_user'')
                           (\<lambda>_. install_pip_packages c [''mitosheet'']
                                  (''--test-pypi'' \<in> set (sys_argv c)) True)
                    else raise e)
             else raise e))"

definition install_step_mitosheet_activate_notebook_extension :: "'w commands \<Rightarrow> ('w, unit) action" where
  "install_step_mitosheet_activate_notebook_extension c =
     and_then
       (run_command c [sys_executable c, ''-m'', ''jupyter'', ''nbextension'', ''install'', ''--py'',
                       ''--user'', ''mitosheet''])
       (\<lambda>_. run_command c [sys_executable c, ''-m'', ''jupyter'', ''nbextension'', ''enable'', ''--py'',
                       ''--user'', ''mitosheet''])"

record 'w InstallerStep =
  installer_step_name :: string
  execution_function :: "('w, unit) action"

definition MITOSHEET_INSTALLER_STEPS :: "'w commands \<Rightarrow> 'w InstallerStep list" where
  "MITOSHEET_INSTALLER_STEPS c =
     [\<lparr>installer_step_name = ''Check dependencies'',
       execution_function = install_step_mitosheet_check_dependencies c\<rparr>,
      \<lparr>installer_step_name = ''Remove mitosheet3 if present'',
       execution_function = remove_mitosheet_3_if_present c\<rparr>,
      \<lparr>installer_step_name = ''Install mitosheet'',
       execution_function = install_step_mitosheet_install_mitosheet c\<rparr>,
      \<lparr>installer_step_name = ''Activate extension'',
       execution_function = install_step_mitosheet_activate_notebook_extension c\<rparr>]"

fun run_installer_steps :: "'w InstallerStep list \<Rightarrow> ('w, unit) action" where
  "run_installer_steps [] = return_value ()"
| "run_installer_steps (step # steps) =
     and_then (execution_function step) (\<lambda>_. run_installer_steps steps)"


section \<open>A recording environment\<close>

datatype command =
    GetJupyterlabMetadata
  | InstallPipPackages "string list" bool bool
  | UninstallPipPackages "string list"
  | RunCommand "string list"
  | LogEvent string
  | InputLine string

record world =
  jupyterlab_metadata :: "string option \<times> string list"
  failures :: "command \<Rightarrow> py_error option"
  answer :: string
  recent_traceback :: string
  issued :: "command list"

definition issue :: "command \<Rightarrow> (world \<Rightarrow> 'a) \<Rightarrow> (world, 'a) action" where
  "issue cmd value_of w =
     ((case failures w cmd of Some e \<Rightarrow> Inl e | None \<Rightarrow> Inr (value_of w)),
      w\<lparr>issued := issued w @ [cmd]\<rparr>)"

definition recording_commands :: "string list \<Rightarrow> string \<Rightarrow> world commands" where
  "recording_commands argv executable =
     \<lparr>get_jupyterlab_metadata = issue GetJupyterlabMetadata jupyterlab_metadata,
      install_pip_packages = (\<lambda>packages test_pypi user_install.
        issue (InstallPipPackages packages test_pypi user_install) (\<lambda>_. ())),
      uninstall_pip_packages = (\<lambda>packages. issue (UninstallPipPackages packages) (\<lambda>_. ())),
      run_command = (\<lambda>args. issue (RunCommand args) (\<lambda>_. ())),
      get_recent_traceback = (\<lambda>w. (Inr (recent_traceback w), w)),
      log_event = (\<lambda>name. issue (LogEvent name) (\<lambda>_. ())),
      input_line = (\<lambda>prompt. issue (InputLine prompt) answer),
      sys_argv = argv,
      sys_executable = executable\<rparr>"

definition compatible :: "string option \<times> string list \<Rightarrow> bool" where
  "compatible metadata \<longleftrightarrow>
     (case fst metadata of None \<Rightarrow> True | Some version \<Rightarrow> prefix ''3'' version \<or> snd metadata = [])"

text \<open>
  An action is \<open>orderly\<close> when all it does to the state is to append commands to the
  log, when every command it issued but the last succeeded, and when the last one
  succeeded too unless the action raised.
\<close>

definition orderly :: "(world, 'a) action \<Rightarrow> bool" where
  "orderly f \<longleftrightarrow>
     (\<forall>w. \<exists>cmds. snd (f w) = w\<lparr>issued := issued w @ cmds\<rparr> \<and>
        list_all (\<lambda>cmd. failures w cmd = None) (butlast cmds) \<and>
        (isl (fst (f w)) \<or> list_all (\<lambda>cmd. failures w cmd = None) cmds))"

section \<open>Lemmas\<close>

lemma and_then_return [simp]: "and_then (return_value x) g = g x"
  by (simp add: and_then_def return_value_def fun_eq_iff)

lemma and_then_raise [simp]: "and_then (raise e) g = raise e"
  by (simp add: and_then_def raise_def fun_eq_iff)

lemma try_except_return [simp]: "try_except (return_value x) handler = return_value x"
  by (simp add: try_except_def return_value_def fun_eq_iff)

lemma try_except_raise [simp]: "try_except (raise e) handler = handler e"
  by (simp add: try_except_def raise_def fun_eq_iff)

lemma try_except_reraise [simp]: "try_except body raise = body"
  by (auto simp: try_except_def raise_def fun_eq_iff split: prod.splits sum.splits)

lemma and_then_assoc: "and_then (and_then f g) h = and_then f (\<lambda>x. and_then (g x) h)"
  by (auto simp: and_then_def fun_eq_iff split: prod.splits sum.splits)

lemmas recording_defs = recording_commands_def issue_def

lemma check_dependencies_recording:
  "install_step_mitosheet_check_dependencies (recording_commands argv executable) w =
     ((case failures w GetJupyterlabMetadata of
         Some e \<Rightarrow> Inl e
       | None \<Rightarrow>
           if compatible (jupyterlab_metadata w) then Inr ()
           else Inl (Exception (''Installed extensions '' @ list_repr str_repr (snd (jupyterlab_metadata w))))),
      w\<lparr>issued := issued w @ [GetJupyterlabMetadata]\<rparr>)"
  by (cases "jupyterlab_metadata w")
    (auto simp: install_step_mitosheet_check_dependencies_def and_then_def compatible_def
      return_value_def raise_def recording_defs split: option.splits)

lemma remove_mitosheet_3_recording:
  "remove_mitosheet_3_if_present (recording_commands argv executable) =
     issue (UninstallPipPackages [''mitosheet3'']) (\<lambda>_. ())"
  by (simp add: remove_mitosheet_3_if_present_def recording_commands_def)

text \<open>
  When reading the traceback neither raises nor changes the state, the handler of the
  install step does nothing but raise the exception again, and the step is the call.
\<close>

lemma install_mitosheet_read_only:
  assumes "\<And>w. \<exists>t. get_recent_traceback c w = (Inr t, w)"
  shows "install_step_mitosheet_install_mitosheet c =
     install_pip_packages c [''mitosheet''] (''--test-pypi'' \<in> set (sys_argv c)) False"
proof -
  have "and_then (get_recent_traceback c) (\<lambda>_. raise e) w = (raise e w :: unit result \<times> _)"
    for e w
    using assms [of w] by (auto simp: and_then_def raise_def)
  then have "and_then (get_recent_traceback c) (\<lambda>_. raise e) = (raise e :: (_, unit) action)" for e
    by (simp add: fun_eq_iff)
  then show ?thesis
    by (simp add: install_step_mitosheet_install_mitosheet_def)
qed

lemma install_mitosheet_recording:
  "install_step_mitosheet_install_mitosheet (recording_commands argv executable) =
     issue (InstallPipPackages [''mitosheet''] (''--test-pypi'' \<in> set argv) False) (\<lambda>_. ())"
  by (subst install_mitosheet_read_only) (simp_all add: recording_commands_def)

lemma activate_notebook_extension_recording:
  "install_step_mitosheet_activate_notebook_extension (recording_commands argv executable) =
     and_then
       (issue (RunCommand [executable, ''-m'', ''jupyter'', ''nbextension'', ''install'', ''--py'',
          ''--user'', ''mitosheet'']) (\<lambda>_. ()))
       (\<lambda>_. issue (RunCommand [executable, ''-m'', ''jupyter'', ''nbextension'', ''enable'', ''--py'',
          ''--user'', ''mitosheet'']) (\<lambda>_. ()))"
  by (simp add: install_step_mitosheet_activate_notebook_extension_def recording_commands_def)

lemmas recording_steps = remove_mitosheet_3_recording install_mitosheet_recording
  activate_notebook_extension_recording

lemma orderly_return [simp]: "orderly (return_value x)"
  by (auto simp: orderly_def return_value_def intro!: exI [of _ "[]"])

lemma orderly_raise [simp]: "orderly (raise e)"
  by (auto simp: orderly_def raise_def intro!: exI [of _ "[]"])

lemma orderly_issue [simp]: "orderly (issue cmd value_of)"
  by (auto simp: orderly_def issue_def intro!: exI [of _ "[cmd]"] split: option.splits)

lemma orderly_and_then:
  assumes f: "orderly f" and g: "\<And>x. orderly (g x)"
  shows "orderly (and_then f g)"
  unfolding orderly_def
proof
  fix w
  from f obtain cmds where cmds: "snd (f w) = w\<lparr>issued := issued w @ cmds\<rparr>"
    "list_all (\<lambda>cmd. failures w cmd = None) (butlast cmds)"
    "isl (fst (f w)) \<or> list_all (\<lambda>cmd. failures w cmd = None) cmds"
    unfolding orderly_def by blast
  show "\<exists>cmds. snd (and_then f g w) = w\<lparr>issued := issued w @ cmds\<rparr> \<and>
        list_all (\<lambda>cmd. failures w cmd = None) (butlast cmds) \<and>
        (isl (fst (and_then f g w)) \<or> list_all (\<lambda>cmd. failures w cmd = None) cmds)"
  proof (cases "f w")
    case (Pair r w')
    show ?thesis
    proof (cases r)
      case (Inl e)
      with Pair cmds show ?thesis by (intro exI [of _ cmds]) (simp add: and_then_def)
    next
      case (Inr x)
      let ?w' = "w\<lparr>issued := issued w @ cmds\<rparr>"
      from g [of x] obtain cmds' where cmds': "snd (g x ?w') = ?w'\<lparr>issued := issued ?w' @ cmds'\<rparr>"
        "list_all (\<lambda>cmd. failures ?w' cmd = None) (butlast cmds')"
        "isl (fst (g x ?w')) \<or> list_all (\<lambda>cmd. failures ?w' cmd = None) cmds'"
        unfolding orderly_def by blast
      from Pair Inr cmds have ok: "list_all (\<lambda>cmd. failures w cmd = None) cmds" "w' = ?w'" by simp_all
      with cmds' have "list_all (\<lambda>cmd. failures w cmd = None) (butlast (cmds @ cmds'))"
        by (auto simp: butlast_append list_all_iff dest: in_set_butlastD)
      with Pair Inr cmds' ok show ?thesis
        by (intro exI [of _ "cmds @ cmds'"]) (simp add: and_then_def)
    qed
  qed
qed

lemma orderly_run_installer_steps:
  "list_all (\<lambda>step. orderly (execution_function step)) steps \<Longrightarrow> orderly (run_installer_steps steps)"
  by (induction steps) (simp_all add: orderly_and_then)

lemma orderly_check_dependencies:
  "orderly (install_step_mitosheet_check_dependencies (recording_commands argv executable))"
  by (simp add: install_step_mitosheet_check_dependencies_def recording_commands_def
      orderly_and_then split: option.split prod.split)

lemma orderly_steps:
  "list_all (\<lambda>step. orderly (execution_function step))
     (MITOSHEET_INSTALLER_STEPS (recording_commands argv executable))"
  by (simp add: MITOSHEET_INSTALLER_STEPS_def recording_steps orderly_check_dependencies
      orderly_and_then)

section \<open>Properties\<close>

text \<open>
  C21. Whatever the commands do, the install step is the call
  \<^verbatim>\<open>install_pip_packages('mitosheet', test_pypi='--test-pypi' in sys.argv)\<close> and, only
  when the call raises, the reading of the recent traceback followed by raising the
  exception of the call again, unchanged. The user is never asked, nothing is logged
  and no user install is ever started, because the branch of the source that would do
  so is guarded by \<^verbatim>\<open>False and ...\<close>; the traceback read has no influence on the exception
  raised unless reading it raises itself.
\<close>

theorem install_step_mitosheet_install_mitosheet_eq:
  "install_step_mitosheet_install_mitosheet c =
     try_except
       (install_pip_packages c [''mitosheet''] (''--test-pypi'' \<in> set (sys_argv c)) False)
       (\<lambda>e. and_then (get_recent_traceback c) (\<lambda>_. raise e))"
  by (simp add: install_step_mitosheet_install_mitosheet_def)

text \<open>
  C24. When reading the JupyterLab metadata returns a version and a list of extension
  names, the dependency check returns normally if no JupyterLab is installed, if its
  version starts with 3, or if no extension is installed; in every other case it
  raises an exception whose message names the installed extensions. The state is the
  one the metadata command left.
\<close>

theorem check_dependencies_result:
  assumes "get_jupyterlab_metadata c w = (Inr (jupyterlab_version, extension_names), w')"
  shows "install_step_mitosheet_check_dependencies c w =
     (if compatible (jupyterlab_version, extension_names) then Inr ()
      else Inl (Exception (''Installed extensions '' @ list_repr str_repr extension_names)), w')"
  using assms
  by (auto simp: install_step_mitosheet_check_dependencies_def and_then_def compatible_def
      return_value_def raise_def split: option.splits)

theorem check_dependencies_result_witness:
  "install_step_mitosheet_check_dependencies (recording_commands [] ''python'')
     \<lparr>jupyterlab_metadata = (Some ''2.2.9'', [''lab-git'']), failures = (\<lambda>_. None), answer = [], recent_traceback = [], issued = []\<rparr> =
   (Inl (Exception ''Installed extensions ['lab-git']''),
    \<lparr>jupyterlab_metadata = (Some ''2.2.9'', [''lab-git'']), failures = (\<lambda>_. None), answer = [], recent_traceback = [], issued = [GetJupyterlabMetadata]\<rparr>)"
  by (subst check_dependencies_result [where jupyterlab_version = "Some ''2.2.9''"
        and extension_names = "[''lab-git'']"])
    (simp_all add: recording_defs compatible_def list_repr_def repr_defs)

text \<open>
  C12. On a machine whose installation can be upgraded and on which no command fails,
  the run of the four steps returns normally and has issued exactly five commands in
  this order: reading the metadata, uninstalling \<^verbatim>\<open>mitosheet3\<close>, installing \<^verbatim>\<open>mitosheet\<close>
  (from the test index exactly when \<^verbatim>\<open>--test-pypi\<close> is an argument, never as a user
  install), installing the notebook extension and enabling it.
\<close>

theorem run_compatible:
  assumes "compatible (jupyterlab_metadata w)" and "failures w = (\<lambda>_. None)"
  shows "run_installer_steps (MITOSHEET_INSTALLER_STEPS (recording_commands argv executable)) w =
     (Inr (), w\<lparr>issued := issued w @
        [GetJupyterlabMetadata,
         UninstallPipPackages [''mitosheet3''],
         InstallPipPackages [''mitosheet''] (''--test-pypi'' \<in> set argv) False,
         RunCommand [executable, ''-m'', ''jupyter'', ''nbextension'', ''install'', ''--py'', ''--user'', ''mitosheet''],
         RunCommand [executable, ''-m'', ''jupyter'', ''nbextension'', ''enable'', ''--py'', ''--user'', ''mitosheet'']]\<rparr>)"
  using assms
  by (simp add: MITOSHEET_INSTALLER_STEPS_def check_dependencies_recording recording_steps
      and_then_def issue_def return_value_def)

theorem run_compatible_witness:
  "run_installer_steps (MITOSHEET_INSTALLER_STEPS (recording_commands [''--test-pypi''] ''python''))
     \<lparr>jupyterlab_metadata = (Some ''3.0.1'', [''lab-git'']), failures = (\<lambda>_. None), answer = [], recent_traceback = [], issued = []\<rparr> =
   (Inr (), \<lparr>jupyterlab_metadata = (Some ''3.0.1'', [''lab-git'']), failures = (\<lambda>_. None), answer = [], recent_traceback = [], issued = [GetJupyterlabMetadata,
      UninstallPipPackages [''mitosheet3''],
      InstallPipPackages [''mitosheet''] True False,
      RunCommand [''python'', ''-m'', ''jupyter'', ''nbextension'', ''install'', ''--py'', ''--user'', ''mitosheet''],
      RunCommand [''python'', ''-m'', ''jupyter'', ''nbextension'', ''enable'', ''--py'', ''--user'', ''mitosheet'']]\<rparr>)"
  by (subst run_compatible) (simp_all add: compatible_def)

text \<open>
  C29. On a machine with a JupyterLab whose version does not start with 3 and with an
  extension installed, the run stops in the first step: it raises the exception of the
  dependency check, and reading the metadata is the only command issued, so nothing
  is uninstalled or installed.
\<close>

theorem run_incompatible:
  assumes "\<not> compatible (jupyterlab_metadata w)" and "failures w GetJupyterlabMetadata = None"
  shows "run_installer_steps (MITOSHEET_INSTALLER_STEPS (recording_commands argv executable)) w =
     (Inl (Exception (''Installed extensions '' @ list_repr str_repr (snd (jupyterlab_metadata w)))),
      w\<lparr>issued := issued w @ [GetJupyterlabMetadata]\<rparr>)"
  using assms
  by (simp add: MITOSHEET_INSTALLER_STEPS_def check_dependencies_recording and_then_def)

theorem run_incompatible_witness:
  "run_installer_steps (MITOSHEET_INSTALLER_STEPS (recording_commands [] ''python''))
     \<lparr>jupyterlab_metadata = (Some ''2.2.9'', [''lab-git'']), failures = (\<lambda>_. None), answer = [], recent_traceback = [], issued = []\<rparr> =
   (Inl (Exception ''Installed extensions ['lab-git']''),
    \<lparr>jupyterlab_metadata = (Some ''2.2.9'', [''lab-git'']), failures = (\<lambda>_. None), answer = [], recent_traceback = [], issued = [GetJupyterlabMetadata]\<rparr>)"
  by (subst run_incompatible) (simp_all add: compatible_def list_repr_def repr_defs)

text \<open>
  C30. When the installation can be upgraded and the only command that fails is the
  installation of \<^verbatim>\<open>mitosheet\<close>, the run raises the exception of that command after
  three commands: the notebook extension is neither installed nor enabled, and the
  package is not installed a second time as a user install.
\<close>

theorem run_install_fails:
  assumes "compatible (jupyterlab_metadata w)"
    and "failures w = (\<lambda>_. None)(InstallPipPackages [''mitosheet''] (''--test-pypi'' \<in> set argv) False \<mapsto> e)"
  shows "run_installer_steps (MITOSHEET_INSTALLER_STEPS (recording_commands argv executable)) w =
     (Inl e, w\<lparr>issued := issued w @
        [GetJupyterlabMetadata,
         UninstallPipPackages [''mitosheet3''],
         InstallPipPackages [''mitosheet''] (''--test-pypi'' \<in> set argv) False]\<rparr>)"
  using assms
  by (simp add: MITOSHEET_INSTALLER_STEPS_def check_dependencies_recording recording_steps
      and_then_def issue_def return_value_def)

theorem run_install_fails_witness:
  "run_installer_steps (MITOSHEET_INSTALLER_STEPS (recording_commands [] ''python''))
     \<lparr>jupyterlab_metadata = (None, []), failures = ((\<lambda>_. None)(InstallPipPackages [''mitosheet''] False False \<mapsto> Exception ''Permission denied'')), answer = [], recent_traceback = [], issued = []\<rparr> =
   (Inl (Exception ''Permission denied''),
    \<lparr>jupyterlab_metadata = (None, []), failures = ((\<lambda>_. None)(InstallPipPackages [''mitosheet''] False False \<mapsto> Exception ''Permission denied'')), answer = [], recent_traceback = [], issued = [GetJupyterlabMetadata, UninstallPipPackages [''mitosheet3''],
        InstallPipPackages [''mitosheet''] False False]\<rparr>)"
  by (subst run_install_fails [where e = "Exception ''Permission denied''"]) (simp_all add: compatible_def)

text \<open>
  C18. Whatever commands fail, the run of the four steps is orderly: it only appends to
  the log, no command is issued after one that failed, and when the run returns
  normally every command it issued succeeded.
\<close>

theorem installer_orderly:
  "orderly (run_installer_steps (MITOSHEET_INSTALLER_STEPS (recording_commands argv executable)))"
  by (intro orderly_run_installer_steps orderly_steps)

end
