(* ===== verification/Spec2Isabelle.thy ===== *)
theory Spec2Isabelle
  imports Py_Prelude Graph_Title Graph_Tab_Name Param_Code Param_Syntax Html_Script Column_Header
    Installer_Steps
begin

text \<open>
  \<^bold>\<open>A verification of the graph utilities and of the installer steps.\<close>

  The repository holds two Python modules under \<^verbatim>\<open>src/\<close>:

  \<^item> \<^verbatim>\<open>src/mitosheet/mitosheet/step_performers/graph_steps/graph_utils.py\<close>: the constants of
    the graph types and the table of their labels, and five functions that do not
    call one another: \<^verbatim>\<open>param_dict_to_code\<close> (a nested dictionary of parameters as the
    text of keyword arguments), \<^verbatim>\<open>get_graph_title\<close>, \<^verbatim>\<open>get_new_graph_tab_name\<close>,
    \<^verbatim>\<open>get_html_and_script_from_figure\<close> (the container and the scripts of the document
    the rendering engine writes) and
    \<^verbatim>\<open>get_column_header_from_optional_column_id_graph_param\<close> (a query of the state).
  \<^item> \<^verbatim>\<open>src/mitoinstaller/mitoinstaller/installer_steps/mitosheet_installer_steps.py\<close>: four
    installer steps and the list \<^verbatim>\<open>MITOSHEET_INSTALLER_STEPS\<close> that orders them.

  \<^bold>\<open>How the code is modelled.\<close> Every function is an executable HOL function named as
  in the source, with the parameters of the source in their order. A function that can
  raise returns \<open>py_error + 'a\<close>: \<open>Inl\<close> the exception, \<open>Inr\<close> the value. A Python
  \<^verbatim>\<open>str\<close> is a \<open>string\<close>; a Python \<^verbatim>\<open>int\<close> is an \<open>int\<close>, and a counter that starts at 0
  and only grows is a \<open>nat\<close>; a dictionary that is only indexed is a map, and one that
  is iterated is an association list in insertion order. A \<^verbatim>\<open>while\<close> loop is a
  recursive function whose termination is proved; a \<^verbatim>\<open>for\<close> loop is a recursion over
  the list it runs through, with the variables it updates as accumulators. What a
  function receives from outside the sources (the converter of a value to code, the
  rendering engine, the commands of the installer) is a parameter of its model, so
  the lemmas hold for every behaviour of it.

  \<^bold>\<open>The theories.\<close>

  \<^descr>[\<open>Py_Prelude\<close>] The exceptions, the values, and the builtins of Python the sources
  call: \<^verbatim>\<open>d[k]\<close>, \<^verbatim>\<open>xs[i]\<close>, \<^verbatim>\<open>str(n)\<close>, \<^verbatim>\<open>join\<close>, \<^verbatim>\<open>s * n\<close>, \<^verbatim>\<open>find\<close> with a start, slices,
  \<^verbatim>\<open>strip\<close>, \<^verbatim>\<open>split('\n')[-1]\<close>, \<^verbatim>\<open>lower\<close>, \<^verbatim>\<open>repr\<close> of a string and of a list. The values
  \<open>pyval\<close> are \<^verbatim>\<open>None\<close>, integers and strings up to \<^verbatim>\<open>==\<close>: a boolean is the integer 1
  or 0, as it is as a dictionary key and as an index. Its lemmas: \<^verbatim>\<open>str\<close> is injective; \<^verbatim>\<open>find\<close>
  returns the first occurrence at or after the start, and \<open>-1\<close> exactly when there is
  none; where an occurrence lies in a text built from parts. The collections
  \<open>py_defs\<close>, \<open>graph_defs\<close> and \<open>py_eval\<close> name the definitions to unfold and the
  equations that evaluate a model on closed arguments.

  \<^descr>[\<open>Graph_Title\<close>] The ten constants (lines 17 to 26), \<open>GRAPH_TITLE_LABELS\<close> (lines
  29 to 40) and \<open>get_graph_title\<close> (lines 98 to 125). The string representation of a
  header, \<^verbatim>\<open>str(s)\<close>, is the parameter \<open>str_h\<close>; \<open>graph_types\<close>, the list of the ten
  constants, is a notion of the lemmas and not of the source. Shown: the value of the
  title for a type of the table, with and without the filter marker and also with no
  header at all, where it starts with the separator; \<^verbatim>\<open>KeyError\<close> exactly for a type
  outside the table.

  \<^descr>[\<open>Graph_Tab_Name\<close>] \<open>get_new_graph_tab_name\<close> (lines 128 to 144): the loop that
  collects the names is \<open>collect_graph_names\<close>, the loop that probes
  \<^verbatim>\<open>graph0\<close>, \<^verbatim>\<open>graph1\<close>, ... is \<open>probe_graph_name\<close>. The probing ends because the taken
  numbers at or above the current one are a finite set that shrinks with every
  round; that is the measure of the termination proof, and no bound or fuel is
  needed. Shown: the name returned is not taken and its number is the least one not
  taken; the number is at most the count of names; \<^verbatim>\<open>KeyError\<close> exactly when an entry
  has no \<^verbatim>\<open>graphTabName\<close>; after the name returned is inserted the next call returns
  another name.

  \<^descr>[\<open>Param_Code\<close>] \<open>TAB\<close> (line 44) and \<open>param_dict_to_code\<close> (lines 46 to 95) with its
  loop \<open>param_items_to_code\<close> (lines 68 to 87), over the datatype \<open>param\<close> of nested
  dictionaries as association lists; a list that repeats a key is no dictionary, and
  the lemmas that need distinct keys ask for \<open>wf_param\<close>. \<open>entry_code\<close>, the text one
  round of the loop appends, is a notion of the lemmas. Shown: the closed form of the
  text as a join of the entries; the
  two layouts differ in blanks and newlines only; a nested dictionary makes the single
  line layout contain newlines, since line 72 does not pass the flag on, and without
  one the single line layout has none; balanced parentheses for well-formed
  dictionaries.

  \<^descr>[\<open>Param_Syntax\<close>] The code of \<open>param_dict_to_code\<close> read as call syntax: a reader
  \<open>parse_code\<close> of entries \<^verbatim>\<open>key=value\<close> with nested \<^verbatim>\<open>dict(...)\<close>, written for this
  development and not part of the sources. Its two mutually recursive functions take
  a bound on the number of nested calls; every call is on a shorter text, so one more
  than the length of the text is enough, and that is what \<open>parse_code\<close> passes.
  Shown: reading the code of a well-formed dictionary back gives the dictionary
  (with the code of its scalars); different dictionaries have different code; the
  highest number of open parentheses is the nesting depth of the dictionary.

  \<^descr>[\<open>Html_Script\<close>] \<open>get_html_and_script_from_figure\<close> (lines 147 to 196): the call of
  the rendering engine is the parameter \<open>write_html\<close>, the rest is \<open>div_and_script\<close>,
  whose loop (lines 182 to 194) is \<open>script_loop\<close>. The loop ends because the index
  grows by at least 9 in every round and stays below the length of the text; the
  measure is the distance of the index to the end. Shown: on a document made of
  script blocks the script is the bodies in order, each followed by \<^verbatim>\<open>;\<close> and a newline,
  and every document is made of such blocks; the slice of the container ends before
  the closing tag; what is returned when the marker or the closing tag is missing; the
  bounds of the slice of a body.

  \<^descr>[\<open>Column_Header\<close>] \<open>get_column_header_from_optional_column_id_graph_param\<close> (lines
  198 to 206). The state is outside the sources: of it the model has the field
  \<^verbatim>\<open>column_ids.column_id_to_column_header\<close>, a list of dictionaries, and
  \<^verbatim>\<open>get_column_header_by_id\<close> as the lookup in it. Shown: exactly when a header, no
  header, or an exception is returned.

  \<^descr>[\<open>Installer_Steps\<close>] The four steps (lines 11 to 78) and their list (lines 81 to
  98) as actions on a state, over a record of the commands the module imports, each
  of which may change the state and may raise; \<^verbatim>\<open>try\<close> and \<^verbatim>\<open>except\<close> as \<open>try_except\<close>; the
  runner of the list, which is outside the sources, as \<open>run_installer_steps\<close>. The
  runs are stated on \<open>recording_commands\<close>, an environment that logs every command
  and lets any of them fail. Shown: the install step is the call of
  \<^verbatim>\<open>install_pip_packages\<close> and, when that raises, the reading of the traceback and the
  same exception again (the user install of lines 63 to 69 is unreachable); the
  result of the dependency check, with the message Python formats; the commands a run
  issues on a compatible machine, on an incompatible one, and when the installation
  fails; no command is issued after one that failed.

  \<^descr>[\<open>Spec2Isabelle\<close>] This theory: two properties that link components. A title
  put into a parameter dictionary as a quoted scalar leaves the code balanced, since
  the only parentheses a title adds are those of the filter marker; the names
  \<^verbatim>\<open>get_new_graph_tab_name\<close> returns are identifiers, so they are keys a well-formed
  parameter dictionary accepts.

  \<^bold>\<open>Not modelled.\<close> The rendering engine (\<^verbatim>\<open>plotly\<close>), the converter
  \<^verbatim>\<open>column_header_to_transpiled_code\<close>, the state manager \<^verbatim>\<open>mitosheet.state\<close> beyond the
  lookup above, and the commands and the logging of the installer
  (\<^verbatim>\<open>mitoinstaller.commands\<close>, \<^verbatim>\<open>mitoinstaller.log_utils\<close>) are outside \<^verbatim>\<open>src/\<close>; they are
  parameters of the models. Characters are the 256 code points of \<open>char\<close>. The memory
  and the recursion limit of the interpreter are not modelled: the models are total
  where the code can exhaust them.
\<close>

section \<open>Titles and tab names in generated code\<close>

lemma is_identifier_graph_name: "is_identifier (graph_name n)"
proof -
  have "list_all ident_char (str_of_nat n)"
    using set_str_of_nat [of n] by (auto simp: list_all_iff ident_char_def)
  then show ?thesis
    by (simp add: is_identifier_def graph_name_def ident_char_def)
qed

lemma balanced_label:
  "map_of GRAPH_TITLE_LABELS graph_type = Some label \<Longrightarrow> paren_free label"
  by (auto simp: GRAPH_TITLE_LABELS_def graph_defs paren_free_def split: if_splits)

text \<open>
  C23. A title \<^verbatim>\<open>get_graph_title\<close> returns for headers whose text has balanced
  parentheses, put between double quotes as the value of the key \<^verbatim>\<open>title\<close>, gives code
  with balanced parentheses at every level and in both layouts: the marker
  \<^verbatim>\<open>(first 1000 rows)\<close> and the labels of the table do not unbalance the code
  \<^verbatim>\<open>param_dict_to_code\<close> writes.
\<close>

theorem get_graph_title_balanced:
  assumes "get_graph_title str_h x_axis_column_headers y_axis_column_headers filtered graph_type = Inr title"
    and "\<forall>h\<in>set (x_axis_column_headers @ y_axis_column_headers). balanced (str_h h)"
  shows "balanced (param_dict_to_code (\<lambda>v. [CHR 0x22] @ v @ [CHR 0x22]) [(''title'', Scalar title)] level as_single_line)"
proof -
  from assms(1) obtain label where label: "map_of GRAPH_TITLE_LABELS graph_type = Some label"
    and title: "title = str_join '' ''
      (str_join '', '' (map str_h (x_axis_column_headers @ y_axis_column_headers)) #
       (if filtered then [''(first 1000 rows)''] else []) @ [label])"
    by (auto simp: get_graph_title_def dict_item_def Let_def split: option.splits if_splits)
  from assms(2) have "balanced (str_join '', '' (map str_h (x_axis_column_headers @ y_axis_column_headers)))"
    by (intro balanced_str_join) (auto simp: paren_free_balanced)
  moreover from balanced_label [OF label] have "balanced label"
    by (simp add: paren_free_balanced paren_free_def)
  moreover have "balanced ''(first 1000 rows)''" by (simp add: balanced_def)
  ultimately have "balanced title"
    unfolding title by (intro balanced_str_join) (auto simp: paren_free_balanced)
  then show ?thesis
    by (cases as_single_line)
      (auto simp: param_dict_to_code_join balanced_def paren_scan_append balanced_scan
        balanced_str_repeat_TAB [unfolded balanced_def])
qed

theorem get_graph_title_balanced_witness:
  "balanced (param_dict_to_code (\<lambda>v. [CHR 0x22] @ v @ [CHR 0x22])
     [(''title'', Scalar ''Age, Income (first 1000 rows) bar chart'')] 0 False)"
  using get_graph_title_balanced
    [of "\<lambda>h. h" "[''Age'']" "[''Income'']" True BAR "''Age, Income (first 1000 rows) bar chart''" 0 False]
  by (simp add: get_graph_title_def GRAPH_TITLE_LABELS_def graph_defs balanced_def)

text \<open>
  C32. Every name \<^verbatim>\<open>get_new_graph_tab_name\<close> returns is an identifier: it starts with a
  letter and holds letters and digits only, so it is a key that a well-formed
  parameter dictionary accepts.
\<close>

theorem get_new_graph_tab_name_identifier:
  assumes "get_new_graph_tab_name graph_data_dict = Inr name"
  shows "is_identifier name"
proof -
  from assms obtain names where "name = probe_graph_name names 0"
    by (auto simp: get_new_graph_tab_name_def split: sum.splits)
  with probe_graph_name_first [of 0 names] show ?thesis
    by (auto simp: is_identifier_graph_name)
qed

theorem get_new_graph_tab_name_identifier_witness:
  "is_identifier ''graph1''"
  using get_new_graph_tab_name_identifier
    [of "[(''id0'', [''graphTabName'' \<mapsto> VStr ''graph0''])]" "''graph1''"]
  by (simp add: get_new_graph_tab_name_def graph_name_def py_eval)

end
